theory Spec2Isabelle
  imports Complex_Main
begin

section \<open>JavaScript values used by the expense analyzer\<close>

text \<open>
  A JavaScript string is a sequence of UTF-16 code units; \<open>length\<close>, indexing,
  \<open>slice\<close>, \<open>includes\<close> and \<open>split\<close> all count code units. A string is
  modelled as the list of its code units, so the Czech letters of the source are
  written by their code: a-acute 0xE1, e-acute 0xE9, i-acute 0xED, u-acute 0xFA,
  C-caron 0x10C, c-caron 0x10D, e-caron 0x11B, r-caron 0x159, s-caron 0x161,
  z-caron 0x17E. \<open>str\<close> turns an ASCII literal into such a list.
\<close>

type_synonym jstring = "nat list"

definition str :: "string \<Rightarrow> jstring" where
  "str s = map of_char s"

text \<open>
  A JavaScript number: NaN, the two infinities, or a finite value (the rational a
  finite double denotes; \<open>-0\<close> and \<open>0\<close> are one value, as \<open>===\<close> has it).
\<close>

datatype jsnum = NaN | PosInfinity | NegInfinity | Finite rat

text \<open>
  The characters \<open>String.prototype.trim\<close> removes and the regular expression class
  \<open>\s\<close> matches: ECMAScript's WhiteSpace and LineTerminator code points.
\<close>

definition isWhiteSpace :: "nat \<Rightarrow> bool" where
  "isWhiteSpace c \<longleftrightarrow>
     c \<in> set [0x9, 0xA, 0xB, 0xC, 0xD, 0x20, 0xA0, 0x1680, 0x2028, 0x2029, 0x202F,
              0x205F, 0x3000, 0xFEFF]
     \<or> (0x2000 \<le> c \<and> c \<le> 0x200A)"

definition trim :: "jstring \<Rightarrow> jstring" where
  "trim s = rev (dropWhile isWhiteSpace (rev (dropWhile isWhiteSpace s)))"

fun startsWith :: "jstring \<Rightarrow> jstring \<Rightarrow> bool" where
  "startsWith s [] = True"
| "startsWith [] (p # ps) = False"
| "startsWith (c # cs) (p # ps) = (c = p \<and> startsWith cs ps)"

text \<open>\<open>s.includes(sub)\<close>: \<open>sub\<close> occurs in \<open>s\<close> at some position.\<close>

fun includes' :: "jstring \<Rightarrow> jstring \<Rightarrow> bool" where
  "includes' [] sub = (sub = [])"
| "includes' (c # cs) sub = (startsWith (c # cs) sub \<or> includes' cs sub)"

text \<open>\<open>s.split(d)\<close> for a one-character separator: never empty, \<open>''.split(d) = ['']\<close>.\<close>

fun split :: "nat \<Rightarrow> jstring \<Rightarrow> jstring list" where
  "split d [] = [[]]"
| "split d (c # cs) =
     (case split d cs of
        [] \<Rightarrow> [[c]]
      | w # ws \<Rightarrow> if c = d then [] # w # ws else (c # w) # ws)"

fun join :: "jstring \<Rightarrow> jstring list \<Rightarrow> jstring" where
  "join sep [] = []"
| "join sep [x] = x"
| "join sep (x # y # zs) = x @ sep @ join sep (y # zs)"

text \<open>\<open>Array.prototype.findIndex\<close>; \<open>None\<close> is the result \<open>-1\<close>.\<close>

fun findIndex :: "('a \<Rightarrow> bool) \<Rightarrow> 'a list \<Rightarrow> nat option" where
  "findIndex P [] = None"
| "findIndex P (x # xs) = (if P x then Some 0 else map_option Suc (findIndex P xs))"

text \<open>
  \<open>s.replace(',', '.')\<close> with a string pattern replaces the first occurrence only.
\<close>

fun replace_first :: "nat \<Rightarrow> nat \<Rightarrow> jstring \<Rightarrow> jstring" where
  "replace_first a b [] = []"
| "replace_first a b (c # cs) = (if c = a then b # cs else c # replace_first a b cs)"

section \<open>The data model (types.ts, csvParser.ts, papaparse.d.ts)\<close>

text \<open>
  A row of \<open>Papa.parse\<close> with \<open>header: true\<close> is an object from column header to
  field. The declaration says \<open>Record<string, string | undefined>\<close>; at run time
  the fields of a row beyond its header are collected in an array of strings
  under the key \<open>__parsed_extra\<close>, so what a row holds under a key is a string or
  an array of strings. A row is an association list in the order of
  \<open>Object.keys\<close>; a field may be \<open>undefined\<close> (\<open>None\<close>), and reading an absent
  key gives \<open>undefined\<close> too.
\<close>

datatype cell = Str jstring | Arr "jstring list"

type_synonym row = "(jstring \<times> cell option) list"

definition keys :: "row \<Rightarrow> jstring list" where
  "keys r = map fst r"

definition get :: "row \<Rightarrow> jstring \<Rightarrow> cell option" where
  "get r k = (case map_of r k of Some v \<Rightarrow> v | None \<Rightarrow> None)"

text \<open>
  \<open>String(v)\<close>: a string is itself, an array of strings is its elements joined by
  commas.
\<close>

definition String_of :: "cell \<Rightarrow> jstring" where
  "String_of v = (case v of Str s \<Rightarrow> s | Arr xs \<Rightarrow> join [0x2C] xs)"

text \<open>
  A valid \<open>Date\<close> is its time value, the milliseconds since the epoch; an Invalid
  Date or \<open>null\<close> is \<open>None\<close> where the code admits one. The mappers copy what
  the row holds into the text fields of a mapped row, so these hold a \<open>cell\<close>.
\<close>

record MappedRow =
  date :: "int option"
  amount :: jsnum
  currency :: cell
  counterparty :: cell
  description :: cell
  category :: cell
  variableSymbol :: cell
  note' :: cell
  operationType :: cell

text \<open>
  \<open>Transaction\<close> of types.ts declares its text fields strings, and the privacy
  functions take them as strings; \<open>parseCSV\<close> builds a transaction by spreading
  the mapped row, whose text fields are cells. The record is parametrised by
  the type of its text fields: \<open>jstring\<close> as declared, \<open>cell\<close> as built.
\<close>

record 't Transaction =
  id' :: nat
  date :: int
  amount :: jsnum
  currency :: 't
  counterparty :: 't
  description :: 't
  category :: 't
  variableSymbol :: 't
  note' :: 't
  operationType :: 't
  internal :: bool

record DateRange =
  from' :: int
  to' :: int

record 't ParsedData =
  bankName :: jstring
  transactions :: "'t Transaction list"
  dateRange :: DateRange

record ParseError =
  type' :: jstring
  code :: jstring
  message :: jstring

record ParseResult =
  data :: "row list"
  errors :: "ParseError list"

text \<open>
  What the code calls but does not define: built-ins of the JavaScript engine and the
  two libraries. Each is a parameter, a function of its arguments:
  \<^item> \<open>parseFloat\<close>, \<open>String.prototype.toLowerCase\<close>;
  \<open>canonicalize\<close>, the case folding of one code unit under a regular expression's
  \<open>i\<close> flag;
  \<^item> \<open>parse\<close> of date-fns, given the date string, the layout and the reference
  date, \<open>None\<close> for an Invalid Date; \<open>Date_parse\<close>, \<open>new Date(string)\<close>;
  \<^item> \<open>Papa_parse\<close>, given the text and the delimiter (the other options are the
  constants \<open>header: true\<close>, \<open>skipEmptyLines: true\<close> and the trimming
  \<open>transformHeader\<close>).
\<close>

record runtime =
  parseFloat :: "jstring \<Rightarrow> jsnum"
  toLowerCase :: "jstring \<Rightarrow> jstring"
  canonicalize :: "nat \<Rightarrow> nat"
  parse :: "jstring \<Rightarrow> jstring \<Rightarrow> int \<Rightarrow> int option"
  Date_parse :: "jstring \<Rightarrow> int option"
  Papa_parse :: "jstring \<Rightarrow> jstring \<Rightarrow> ParseResult"

section \<open>Locale parsers (csvParser.ts)\<close>

text \<open>\<open>str.replace(/\s/g, '').replace(',', '.')\<close> of \<open>parseCzechNumber\<close>.\<close>

definition cleaned :: "jstring \<Rightarrow> jstring" where
  "cleaned s = replace_first 0x2C 0x2E (filter (\<lambda>c. \<not> isWhiteSpace c) s)"

text \<open>
  \<open>parseCzechNumber\<close>: \<open>!str\<close> holds of \<open>undefined\<close> and of the empty string,
  \<open>typeof str !== 'string'\<close> of an array.
\<close>

definition parseCzechNumber :: "runtime \<Rightarrow> cell option \<Rightarrow> jsnum" where
  "parseCzechNumber rt s =
     (case s of
        None \<Rightarrow> Finite 0
      | Some (Arr xs) \<Rightarrow> Finite 0
      | Some (Str s') \<Rightarrow>
          if s' = [] then Finite 0
          else (let num = parseFloat rt (cleaned s')
                in if num = NaN then Finite 0 else num))"

text \<open>
  \<open>parseDate\<close>. \<open>!str\<close> holds of \<open>undefined\<close> and of the empty string, not of an
  array; the rest works on \<open>String(str).trim()\<close>. Every attempt with date-fns reads
  the clock for its reference date (\<open>new Date()\<close>): \<open>clk k\<close> is the reading of the
  k-th attempt.
\<close>

definition parseDate :: "runtime \<Rightarrow> (nat \<Rightarrow> int) \<Rightarrow> cell option \<Rightarrow> int option" where
  "parseDate rt clk s =
     (case s of
        None \<Rightarrow> None
      | Some s' \<Rightarrow>
          if s' = Str [] then None
          else (let trimmed = trim (String_of s') in
            case parse rt trimmed (str ''dd.MM.yyyy'') (clk 0) of
              Some d \<Rightarrow> Some d
            | None \<Rightarrow>
            (case parse rt trimmed (str ''d.M.yyyy'') (clk 1) of
              Some d \<Rightarrow> Some d
            | None \<Rightarrow>
            (case parse rt trimmed (str ''yyyy-MM-dd'') (clk 2) of
              Some d \<Rightarrow> Some d
            | None \<Rightarrow>
            (case parse rt trimmed (str ''dd/MM/yyyy'') (clk 3) of
              Some d \<Rightarrow> Some d
            | None \<Rightarrow> Date_parse rt trimmed)))))"

section \<open>Category inference (csvParser.ts)\<close>

record rule =
  keywords' :: "jstring list"
  category :: jstring

definition rules :: "rule list" where
  "rules =
   [\<lparr>keywords' = [str ''rohlik'', str ''albert'', str ''billa'', str ''tesco'', str ''lidl'',
        str ''kaufland'', str ''penny'', str ''potraviny'', str ''coop'', str ''globus'',
        str ''bakehouse'', str ''pekarna'', str ''pek'' @ [0xE1] @ str ''rna''],
      category = str ''Potraviny''\<rparr>,
    \<lparr>keywords' = [str ''restaura'', str ''mcdonald'', str ''burger'', str ''kfc'', str ''pizza'',
        str ''foodora'', str ''wolt'', str ''bolt food'', str ''starbucks'', str ''costa''],
      category = str ''Restaurace''\<rparr>,
    \<lparr>keywords' = [str ''benzin'', str ''orlen'', str ''mol'', str ''shell'', str ''eni'',
        [0x10D] @ str ''erpac'' @ [0xED], str ''tank'', str ''fuel''],
      category = str ''Tankov'' @ [0xE1] @ str ''n'' @ [0xED]\<rparr>,
    \<lparr>keywords' = [[0x10D] @ str ''ez'', str ''cez'', str ''energie'', str ''eon'',
        str ''pra'' @ [0x17E] @ str ''sk'' @ [0xE1] @ str '' plyn'' @ [0xE1] @ str ''rensk'' @ [0xE1],
        str ''innogy'', str ''plyn''],
      category = str ''Energie''\<rparr>,
    \<lparr>keywords' = [str ''t-mobile'', str ''vodafone'', str ''o2'', str ''upc'', str ''netflix'',
        str ''spotify'', str ''hbo'', str ''nova'', str ''internet''],
      category = str ''TV, internet, telefon''\<rparr>,
    \<lparr>keywords' = [str ''ikea'', str ''hornbach'', str ''obi'', str ''bauhaus'', str ''baumax'',
        str ''jysk''],
      category = str ''Vybaven'' @ [0xED] @ str '' dom'' @ [0xE1] @ str ''cnosti''\<rparr>,
    \<lparr>keywords' = [str ''n'' @ [0xE1] @ str ''jem'', str ''najem'', str ''hypot''],
      category = str ''Provoz dom'' @ [0xE1] @ str ''cnosti''\<rparr>,
    \<lparr>keywords' = [str ''leasing'', str ''spl'' @ [0xE1] @ str ''tk'',
        str ''spl'' @ [0xE1] @ str ''ce'', [0xFA] @ str ''v'' @ [0x11B] @ str ''r''],
      category = str ''Spl'' @ [0xE1] @ str ''tky''\<rparr>,
    \<lparr>keywords' = [str ''vlak'', str ''bus'', str ''j'' @ [0xED] @ str ''zden'', str ''uber'',
        str ''liftago'', str ''easyjet'', str ''ryanair'', str ''letu'' @ [0x161] @ str ''k''],
      category = str ''Doprava''\<rparr>,
    \<lparr>keywords' = [str ''l'' @ [0xE9] @ str ''k'' @ [0xE1] @ str ''rna'', str ''lekarna'',
        str ''doktor'', str ''nemocni'', str ''zdrav'' @ [0xED], str ''clinic''],
      category = str ''Zdrav'' @ [0xED]\<rparr>,
    \<lparr>keywords' = [str ''kino'', str ''cinema'', str ''divadlo'', str ''koncert'',
        str ''festival'', str ''vstupn'' @ [0xE9]],
      category = str ''Z'' @ [0xE1] @ str ''bava''\<rparr>,
    \<lparr>keywords' = [str ''apple.com'', str ''google'', str ''amazon'', str ''alza'', str ''czc'',
        str ''mall.cz'', str ''notino''],
      category = str ''N'' @ [0xE1] @ str ''kupy a slu'' @ [0x17E] @ str ''by''\<rparr>]"

text \<open>The fallback label, Czech for "other".\<close>

definition Ostatni :: jstring where
  "Ostatni = str ''Ostatn'' @ [0xED]"

definition rule_matches :: "jstring \<Rightarrow> rule \<Rightarrow> bool" where
  "rule_matches desc r = list_ex (\<lambda>kw. includes' desc kw) (keywords' r)"

fun first_category :: "jstring \<Rightarrow> rule list \<Rightarrow> jstring" where
  "first_category desc [] = Ostatni"
| "first_category desc (r # rs) =
     (if rule_matches desc r then rule.category r else first_category desc rs)"

definition guessCategory :: "runtime \<Rightarrow> jstring \<Rightarrow> jstring" where
  "guessCategory rt descr = first_category (toLowerCase rt descr) rules"

section \<open>The bank format registry (csvParser.ts)\<close>

text \<open>
  \<open>map'\<close> is the row mapper; it is given the clock readings of its call of
  \<open>parseDate\<close>, and \<open>None\<close> stands for a raised exception (the \<open>TypeError\<close> of
  \<open>guessCategory\<close> on an array), which \<open>parseCSV\<close> catches.
\<close>

record BankFormat =
  name :: jstring
  detect :: "jstring list \<Rightarrow> bool"
  headerRow :: "jstring list \<Rightarrow> nat option"
  delimiter :: jstring
  map' :: "(nat \<Rightarrow> int) \<Rightarrow> row \<Rightarrow> MappedRow option"

text \<open>
  \<open>a || b\<close> and \<open>a || 'literal'\<close> on what a row holds: the empty string and
  \<open>undefined\<close> are falsy, every array is truthy. \<open>a ?? b\<close> replaces \<open>undefined\<close>
  only.
\<close>

definition or_undefined :: "cell option \<Rightarrow> cell option \<Rightarrow> cell option" where
  "or_undefined a b =
     (case a of
        None \<Rightarrow> b
      | Some (Str s) \<Rightarrow> if s = [] then b else Some (Str s)
      | Some (Arr xs) \<Rightarrow> Some (Arr xs))"

definition or_string :: "cell option \<Rightarrow> jstring \<Rightarrow> cell" where
  "or_string a d =
     (case a of
        None \<Rightarrow> Str d
      | Some (Str s) \<Rightarrow> if s = [] then Str d else Str s
      | Some (Arr xs) \<Rightarrow> Arr xs)"

definition nullish :: "'a option \<Rightarrow> 'a \<Rightarrow> 'a" where
  "nullish a d = (case a of None \<Rightarrow> d | Some v \<Rightarrow> v)"

definition nullish_undefined :: "'a option \<Rightarrow> 'a option \<Rightarrow> 'a option" where
  "nullish_undefined a b = (case a of None \<Rightarrow> b | Some v \<Rightarrow> Some v)"

text \<open>The idiom \<open>row[key ?? ''] ?? d\<close> of the fuzzy mappers.\<close>

definition field :: "row \<Rightarrow> jstring option \<Rightarrow> jstring \<Rightarrow> cell" where
  "field r key d = nullish (get r (nullish key [])) (Str d)"

text \<open>
  \<open>row[catKey ?? ''] ?? guessCategory(row[descKey ?? ''] ?? '')\<close>:
  \<open>guessCategory\<close> is called only when the row holds nothing under the category
  key. Handed an array, its first statement \<open>description.toLowerCase()\<close> raises
  a \<open>TypeError\<close>, an array having no such method: \<open>None\<close>.
\<close>

definition category_of :: "runtime \<Rightarrow> row \<Rightarrow> jstring option \<Rightarrow> jstring option \<Rightarrow> cell option" where
  "category_of rt r catKey descKey =
     (case get r (nullish catKey []) of
        Some c \<Rightarrow> Some c
      | None \<Rightarrow>
          (case field r descKey [] of
             Str s \<Rightarrow> Some (Str (guessCategory rt s))
           | Arr xs \<Rightarrow> None))"

text \<open>\<open>keys[i]\<close>, \<open>undefined\<close> out of range.\<close>

definition at' :: "'a list \<Rightarrow> nat \<Rightarrow> 'a option" where
  "at' xs i = (if i < length xs then Some (xs ! i) else None)"

text \<open>
  \<open>/a|b|c/i.test(k)\<close> for literal alternatives: some alternative occurs in \<open>k\<close>
  when both are compared through the case folding of the \<open>i\<close> flag.
\<close>

definition regex_i_test :: "runtime \<Rightarrow> jstring list \<Rightarrow> jstring \<Rightarrow> bool" where
  "regex_i_test rt alts k =
     list_ex (\<lambda>alt. includes' (map (canonicalize rt) k) (map (canonicalize rt) alt)) alts"

definition csob :: "runtime \<Rightarrow> BankFormat" where
  "csob rt =
    \<lparr>name = [0x10C] @ str ''SOB'',
     detect = (\<lambda>firstLines.
       list_ex (\<lambda>l. includes' l (str ''Pohyby na '' @ [0xFA, 0x10D] @ str ''tu'')
                    \<and> includes' l (str ''/0300'')) firstLines),
     headerRow = (\<lambda>lines.
       findIndex (\<lambda>l. startsWith l ([0x10D, 0xED] @ str ''slo '' @ [0xFA, 0x10D] @ str ''tu;''))
         lines),
     delimiter = str '';'',
     map' = (\<lambda>clk r.
       Some \<lparr>MappedRow.date = parseDate rt clk
            (get r (str ''datum za'' @ [0xFA, 0x10D] @ str ''tov'' @ [0xE1] @ str ''n'' @ [0xED])),
          amount = parseCzechNumber rt (get r ([0x10D, 0xE1] @ str ''stka'')),
          currency = or_string (get r (str ''m'' @ [0x11B] @ str ''na'')) (str ''CZK''),
          counterparty = or_string (get r (str ''jm'' @ [0xE9] @ str ''no protistrany'')) [],
          description = or_string
            (or_undefined (get r (str ''zpr'' @ [0xE1] @ str ''va''))
               (get r (str ''ozna'' @ [0x10D] @ str ''en'' @ [0xED] @ str '' operace''))) [],
          category = or_string (get r (str ''kategorie'')) (str ''Ostatn'' @ [0xED]),
          variableSymbol = or_string (get r (str ''variabiln'' @ [0xED] @ str '' symbol'')) [],
          note' = or_string
            (get r (str ''vlastn'' @ [0xED] @ str '' pozn'' @ [0xE1] @ str ''mka'')) [],
          operationType = or_string
            (get r (str ''ozna'' @ [0x10D] @ str ''en'' @ [0xED] @ str '' operace'')) []\<rparr>)\<rparr>"

definition moneta :: "runtime \<Rightarrow> BankFormat" where
  "moneta rt =
    \<lparr>name = str ''Moneta'',
     detect = (\<lambda>firstLines.
       list_ex (\<lambda>l. includes' l (str ''Moneta'')
                    \<or> (includes' l ([0x22, 0x10C, 0xED] @ str ''slo '' @ [0xFA, 0x10D] @ str ''tu'' @ [0x22])
                       \<and> includes' l ([0x22] @ str ''Datum'' @ [0x22]))) firstLines
       \<or> list_ex (\<lambda>l. includes' l ([0x10C, 0xED] @ str ''slo '' @ [0xFA, 0x10D] @ str ''tu'')
                    \<and> includes' l ([0x10C, 0xE1] @ str ''stka'')
                    \<and> includes' l (str ''Popis transakce'')) firstLines),
     headerRow = (\<lambda>lines.
       findIndex (\<lambda>l. includes' l ([0x10C, 0xED] @ str ''slo '' @ [0xFA, 0x10D] @ str ''tu'')
                     \<and> includes' l ([0x10C, 0xE1] @ str ''stka'')) lines),
     delimiter = str '';'',
     map' = (\<lambda>clk r.
       let dateKey = find (\<lambda>k. includes' k (str ''Datum'')) (keys r);
           amountKey = find (\<lambda>k. includes' k ([0x10C, 0xE1] @ str ''stka'')) (keys r);
           descKey = find (\<lambda>k. includes' k (str ''Popis'')
                              \<or> includes' k (str ''zpr'' @ [0xE1] @ str ''va'')
                              \<or> includes' k (str ''Zpr'' @ [0xE1] @ str ''va'')) (keys r);
           counterKey = find (\<lambda>k. includes' k (str ''protistrany'')
                              \<or> includes' k (str ''P'' @ [0x159, 0xED] @ str ''jemce'')
                              \<or> includes' k (str ''Pl'' @ [0xE1] @ str ''tce'')) (keys r);
           catKey = find (\<lambda>k. includes' k (str ''Kategorie'')
                              \<or> includes' k (str ''kategorie'')) (keys r)
       in case category_of rt r catKey descKey of
            None \<Rightarrow> None
          | Some c \<Rightarrow>
          Some \<lparr>MappedRow.date = parseDate rt clk (Some (field r dateKey [])),
          amount = parseCzechNumber rt (Some (field r amountKey (str ''0''))),
          currency = nullish (get r (str ''M'' @ [0x11B] @ str ''na'')) (Str (str ''CZK'')),
          counterparty = field r counterKey [],
          description = field r descKey [],
          category = c,
          variableSymbol = nullish (get r (str ''Variabiln'' @ [0xED] @ str '' symbol'')) (Str []),
          note' = Str [],
          operationType = Str []\<rparr>)\<rparr>"

definition kb :: "runtime \<Rightarrow> BankFormat" where
  "kb rt =
    \<lparr>name = str ''Komer'' @ [0x10D] @ str ''n'' @ [0xED] @ str '' banka'',
     detect = (\<lambda>firstLines.
       list_ex (\<lambda>l. includes' l (str ''Datum splatnosti'')
                    \<or> (includes' l (str ''Datum'') \<and> includes' l (str ''Objem'')
                       \<and> includes' l (str ''M'' @ [0x11B] @ str ''na''))) firstLines),
     headerRow = (\<lambda>lines.
       findIndex (\<lambda>l. (includes' l (str ''Datum'') \<and> includes' l (str ''Objem''))
                     \<or> (includes' l (str ''Datum'')
                        \<and> includes' l ([0x10C, 0xE1] @ str ''stka''))) lines),
     delimiter = str '';'',
     map' = (\<lambda>clk r.
       let dateKey = nullish_undefined
             (find (\<lambda>k. includes' k (str ''Datum'') \<and> \<not> includes' k (str ''splatnosti''))
                (keys r))
             (find (\<lambda>k. includes' k (str ''Datum'')) (keys r));
           amountKey = find (\<lambda>k. includes' k ([0x10C, 0xE1] @ str ''stka'')
                              \<or> includes' k (str ''Objem'')) (keys r);
           descKey = find (\<lambda>k. includes' k (str ''Popis'')
                              \<or> includes' k (str ''Pozn'' @ [0xE1] @ str ''mka'')
                              \<or> includes' k (str ''AV pole'')) (keys r);
           counterKey = find (\<lambda>k. includes' k (str ''N'' @ [0xE1] @ str ''zev proti'' @ [0xFA, 0x10D] @ str ''tu'')
                              \<or> includes' k (str ''Proti'' @ [0xFA, 0x10D] @ str ''et'')) (keys r);
           catKey = find (\<lambda>k. includes' k (str ''Kategorie'')
                              \<or> includes' k (str ''kategorie'')) (keys r)
       in case category_of rt r catKey descKey of
            None \<Rightarrow> None
          | Some c \<Rightarrow>
          Some \<lparr>MappedRow.date = parseDate rt clk (Some (field r dateKey [])),
          amount = parseCzechNumber rt (Some (field r amountKey (str ''0''))),
          currency = nullish (get r (str ''M'' @ [0x11B] @ str ''na'')) (Str (str ''CZK'')),
          counterparty = field r counterKey [],
          description = field r descKey [],
          category = c,
          variableSymbol = nullish
            (nullish_undefined (get r (str ''Variabiln'' @ [0xED] @ str '' symbol''))
               (get r (str ''VS''))) (Str []),
          note' = Str [],
          operationType = Str []\<rparr>)\<rparr>"

definition generic :: "runtime \<Rightarrow> BankFormat" where
  "generic rt =
    \<lparr>name = str ''Generic CSV'',
     detect = (\<lambda>firstLines. True),
     headerRow = (\<lambda>lines.
       findIndex (\<lambda>l. (includes' (toLowerCase rt l) (str ''date'')
                        \<or> includes' (toLowerCase rt l) (str ''datum''))
                     \<and> (includes' (toLowerCase rt l) (str ''amount'')
                        \<or> includes' (toLowerCase rt l) ([0x10D, 0xE1] @ str ''stka'')
                        \<or> includes' (toLowerCase rt l) (str ''castka''))) lines),
     delimiter = str '';'',
     map' = (\<lambda>clk r.
       let ks = keys r;
           dateKey = nullish_undefined
             (find (regex_i_test rt [str ''datum'', str ''date'']) ks) (at' ks 0);
           amountKey = nullish_undefined
             (find (regex_i_test rt [[0x10D, 0xE1] @ str ''stka'', str ''castka'', str ''amount'',
                      str ''suma'', str ''objem'']) ks) (at' ks 1);
           descKey = nullish_undefined
             (find (regex_i_test rt [str ''popis'', str ''desc'', str ''zpr'' @ [0xE1] @ str ''va'',
                      str ''message'', str ''pozn'']) ks) (at' ks 2);
           catKey = find (regex_i_test rt [str ''kategorie'', str ''category'']) ks
       in case category_of rt r catKey descKey of
            None \<Rightarrow> None
          | Some c \<Rightarrow>
          Some \<lparr>MappedRow.date = parseDate rt clk (Some (field r dateKey [])),
          amount = parseCzechNumber rt (Some (field r amountKey (str ''0''))),
          currency = Str (str ''CZK''),
          counterparty = Str [],
          description = field r descKey [],
          category = c,
          variableSymbol = Str [],
          note' = Str [],
          operationType = Str []\<rparr>)\<rparr>"

text \<open>\<open>Object.entries(BANK_FORMATS)\<close>: the entries in the order they are declared.\<close>

definition BANK_FORMATS :: "runtime \<Rightarrow> (jstring \<times> BankFormat) list" where
  "BANK_FORMATS rt =
     [(str ''csob'', csob rt), (str ''moneta'', moneta rt), (str ''kb'', kb rt),
      (str ''generic'', generic rt)]"

section \<open>The normalization pipeline (csvParser.ts)\<close>

text \<open>
  The three \<open>throw new Error(...)\<close> of \<open>parseCSV\<close>: no header row, a critical
  error of the delimited parse with no record (carrying the message of the
  first critical error), and no valid transaction.
\<close>

datatype error = HeaderNotFound | CsvParsingError jstring | NoValidTransactions

text \<open>
  The loop over the registry: the entry \<open>generic\<close> is skipped, the first other
  entry whose \<open>detect\<close> holds is taken and ends the loop.
\<close>

fun detect_loop :: "(jstring \<times> BankFormat) list \<Rightarrow> jstring list \<Rightarrow> BankFormat option" where
  "detect_loop [] firstLines = None"
| "detect_loop ((key, fmt) # rest) firstLines =
     (if key = str ''generic'' then detect_loop rest firstLines
      else if detect fmt firstLines then Some fmt
      else detect_loop rest firstLines)"

definition select_format :: "runtime \<Rightarrow> jstring list \<Rightarrow> BankFormat" where
  "select_format rt firstLines =
     (case detect_loop (BANK_FORMATS rt) firstLines of
        Some fmt \<Rightarrow> fmt
      | None \<Rightarrow> generic rt)"

text \<open>
  \<open>Array.prototype.sort\<close> with a comparator is a stable sort: an element moves
  behind another only when the comparator is positive. Insertion from the right
  is such a sort.
\<close>

fun insert_cmp :: "('a \<Rightarrow> 'a \<Rightarrow> int) \<Rightarrow> 'a \<Rightarrow> 'a list \<Rightarrow> 'a list" where
  "insert_cmp cmp x [] = [x]"
| "insert_cmp cmp x (y # ys) = (if cmp x y \<le> 0 then x # y # ys else y # insert_cmp cmp x ys)"

fun sort_cmp :: "('a \<Rightarrow> 'a \<Rightarrow> int) \<Rightarrow> 'a list \<Rightarrow> 'a list" where
  "sort_cmp cmp [] = []"
| "sort_cmp cmp (x # xs) = insert_cmp cmp x (sort_cmp cmp xs)"

text \<open>The comparator \<open>(a, b) => b.date.getTime() - a.date.getTime()\<close>.\<close>

definition by_date_desc :: "'t Transaction \<Rightarrow> 't Transaction \<Rightarrow> int" where
  "by_date_desc a b = Transaction.date b - Transaction.date a"

text \<open>\<open>transactions.forEach((t, i) => { t.id = i; })\<close>, counting from \<open>i\<close>.\<close>

fun assign_ids :: "nat \<Rightarrow> 't Transaction list \<Rightarrow> 't Transaction list" where
  "assign_ids i [] = []"
| "assign_ids i (t # ts) = t\<lparr>id' := i\<rparr> # assign_ids (Suc i) ts"

text \<open>
  The callback of \<open>result.data.map\<close>: \<open>None\<close> for a row that is dropped (the mapper
  raised, the date is \<open>null\<close> or the amount is zero).
\<close>

definition map_row ::
  "BankFormat \<Rightarrow> (nat \<Rightarrow> nat \<Rightarrow> int) \<Rightarrow> nat \<times> row \<Rightarrow> cell Transaction option" where
  "map_row fmt clock ir =
     (case map' fmt (clock (fst ir)) (snd ir) of
        None \<Rightarrow> None
      | Some mapped \<Rightarrow>
          (case MappedRow.date mapped of
             None \<Rightarrow> None
           | Some d \<Rightarrow>
               if MappedRow.amount mapped = Finite 0 then None
               else Some \<lparr>id' = fst ir, date = d, amount = MappedRow.amount mapped,
                      currency = MappedRow.currency mapped,
                      counterparty = MappedRow.counterparty mapped,
                      description = MappedRow.description mapped,
                      category = MappedRow.category mapped,
                      variableSymbol = MappedRow.variableSymbol mapped,
                      note' = MappedRow.note' mapped,
                      operationType = MappedRow.operationType mapped,
                      internal = False\<rparr>))"

definition criticalErrors :: "ParseResult \<Rightarrow> ParseError list" where
  "criticalErrors result = filter (\<lambda>e. type' e \<noteq> str ''FieldMismatch'') (errors result)"

text \<open>
  \<open>fileContent.replace(/^\uFEFF/, '')\<close>, then
  \<open>content.split('\n').map((l) => l.trim())\<close>.
\<close>

definition strip_bom :: "jstring \<Rightarrow> jstring" where
  "strip_bom fileContent =
     (case fileContent of
        [] \<Rightarrow> []
      | c # cs \<Rightarrow> if c = 0xFEFF then cs else c # cs)"

definition file_lines :: "jstring \<Rightarrow> jstring list" where
  "file_lines fileContent = map trim (split 0xA (strip_bom fileContent))"

text \<open>
  \<open>parseCSV\<close>. \<open>clock i k\<close> is the reading of the clock at the k-th date-fns
  attempt for row \<open>i\<close>.
\<close>

definition parseCSV ::
  "runtime \<Rightarrow> (nat \<Rightarrow> nat \<Rightarrow> int) \<Rightarrow> jstring \<Rightarrow> error + cell ParsedData" where
  "parseCSV rt clock fileContent =
     (let lines = file_lines fileContent;
          firstLines = take 10 lines;
          format = select_format rt firstLines
      in case headerRow format lines of
           None \<Rightarrow> Inl HeaderNotFound
         | Some headerIdx \<Rightarrow>
            (let csvContent = join [0xA] (drop headerIdx lines);
                 result = Papa_parse rt csvContent (delimiter format)
             in if errors result \<noteq> [] \<and> criticalErrors result \<noteq> [] \<and> data result = []
                then Inl (CsvParsingError (message (hd (criticalErrors result))))
                else
                 (let transactions = List.map_filter (map_row format clock)
                                       (enumerate 0 (data result))
                  in if transactions = [] then Inl NoValidTransactions
                     else
                      (let sorted' = assign_ids 0 (sort_cmp by_date_desc transactions)
                       in Inr \<lparr>bankName = name format,
                               transactions = sorted',
                               dateRange =
                                 \<lparr>from' = Transaction.date (sorted' ! (length sorted' - 1)),
                                  to' = Transaction.date (sorted' ! 0)\<rparr>\<rparr>))))"

section \<open>Privacy masking (utils/privacy)\<close>

definition maskAmount :: "jsnum \<Rightarrow> jsnum" where
  "maskAmount a = a"

text \<open>\<open>maskString(str, minLength = 3)\<close>; \<open>str.slice(-1)\<close> is the last code unit.\<close>

definition maskString :: "jstring \<Rightarrow> nat \<Rightarrow> jstring" where
  "maskString s minLength =
     (if s = [] \<or> length s \<le> minLength then str ''***''
      else if length s \<le> 5 then [s ! 0] @ str ''***''
      else take 2 s @ str ''***'' @ drop (length s - 1) s)"

definition maskCounterparty :: "jstring \<Rightarrow> jstring" where
  "maskCounterparty n = (if n = [] \<or> length (trim n) = 0 then [] else maskString n 2)"

text \<open>
  \<open>desc.split(/\s+/)\<close>: the pieces between the maximal runs of white space, an
  empty piece before a leading and after a trailing run. The flag says that the
  previous code unit was white space.
\<close>

fun split_ws :: "bool \<Rightarrow> jstring \<Rightarrow> jstring \<Rightarrow> jstring list" where
  "split_ws inws cur [] = [cur]"
| "split_ws inws cur (c # cs) =
     (if isWhiteSpace c
      then (if inws then split_ws True cur cs else cur # split_ws True [] cs)
      else split_ws False (cur @ [c]) cs)"

definition maskDescription :: "jstring \<Rightarrow> jstring" where
  "maskDescription desc =
     (if desc = [] \<or> length (trim desc) = 0 then []
      else (let words = split_ws False [] desc
            in if length words \<le> 2 then maskString desc 3
               else join (str '' '') (take 2 words) @ str '' ***''))"

definition maskTransaction :: "jstring Transaction \<Rightarrow> jstring Transaction" where
  "maskTransaction t =
     t\<lparr>amount := maskAmount (Transaction.amount t),
       counterparty := maskCounterparty (Transaction.counterparty t),
       description := maskDescription (Transaction.description t),
       note' := (if Transaction.note' t \<noteq> [] then maskDescription (Transaction.note' t)
                 else Transaction.note' t)\<rparr>"

section \<open>Restoring saved data (storage.ts)\<close>

text \<open>What \<open>JSON.parse\<close> returns.\<close>

datatype json = JNull | JBool bool | JNum jsnum | JStr jstring | JArr "json list"
  | JObj "(jstring \<times> json) list"

text \<open>A call that may raise: \<open>Throw\<close>, or the value it returns.\<close>

datatype 'a completion = Throw | Normal 'a

text \<open>
  Reading a property of a value that is neither \<open>null\<close> nor \<open>undefined\<close>, for
  the names \<open>loadFromStorage\<close> reads (none is an array index or inherited from
  a prototype, but \<open>length\<close> of an array and of a string); \<open>None\<close> is
  \<open>undefined\<close>.
\<close>

fun property :: "json \<Rightarrow> jstring \<Rightarrow> json option" where
  "property (JObj kvs) k = map_of kvs k"
| "property (JArr xs) k =
     (if k = str ''length'' then Some (JNum (Finite (of_nat (length xs)))) else None)"
| "property (JStr s) k =
     (if k = str ''length'' then Some (JNum (Finite (of_nat (length s)))) else None)"
| "property v k = None"

text \<open>Optional chaining \<open>v?.k\<close>.\<close>

fun opt_prop :: "json option \<Rightarrow> jstring \<Rightarrow> json option" where
  "opt_prop None k = None"
| "opt_prop (Some JNull) k = None"
| "opt_prop (Some v) k = property v k"

fun truthy :: "json option \<Rightarrow> bool" where
  "truthy None = False"
| "truthy (Some JNull) = False"
| "truthy (Some (JBool b)) = b"
| "truthy (Some (JNum n)) = (n \<noteq> NaN \<and> n \<noteq> Finite 0)"
| "truthy (Some (JStr s)) = (s \<noteq> [])"
| "truthy (Some (JArr xs)) = True"
| "truthy (Some (JObj kvs)) = True"

text \<open>
  A restored transaction \<open>{...t, date: new Date(t.date), internal: !!t.internal}\<close>:
  the stored value \<open>t\<close> whose properties are spread, the date (\<open>None\<close> for an
  Invalid Date) and the flag. The dates of a restored range may be invalid too.
\<close>

record RestoredTransaction =
  source :: json
  date :: "int option"
  internal :: bool

record RestoredRange =
  from' :: "int option"
  to' :: "int option"

record AppData =
  bankName :: json
  transactions :: "RestoredTransaction list"
  dateRange :: RestoredRange

record LoadFromStorageResult =
  data :: AppData
  selectedRange :: RestoredRange

text \<open>
  The callback of \<open>parsed.transactions.map\<close>. Reading \<open>t.date\<close> of \<open>null\<close>
  raises; \<open>new_Date\<close> is the constructor \<open>new Date(value)\<close>, which may raise
  when it converts an object to a primitive.
\<close>

definition restore :: "(json option \<Rightarrow> int option completion) \<Rightarrow> json \<Rightarrow> RestoredTransaction completion" where
  "restore new_Date t =
     (if t = JNull then Throw
      else case new_Date (property t (str ''date'')) of
             Throw \<Rightarrow> Throw
           | Normal d \<Rightarrow>
               Normal \<lparr>source = t, date = d, internal = truthy (property t (str ''internal''))\<rparr>)"

fun map_completion :: "('a \<Rightarrow> 'b completion) \<Rightarrow> 'a list \<Rightarrow> 'b list completion" where
  "map_completion f [] = Normal []"
| "map_completion f (x # xs) =
     (case f x of
        Throw \<Rightarrow> Throw
      | Normal y \<Rightarrow> (case map_completion f xs of Throw \<Rightarrow> Throw | Normal ys \<Rightarrow> Normal (y # ys)))"

text \<open>\<open>{ from: new Date(r.from), to: new Date(r.to) }\<close> for a truthy \<open>r\<close>.\<close>

definition restore_range :: "(json option \<Rightarrow> int option completion) \<Rightarrow> json \<Rightarrow> RestoredRange completion" where
  "restore_range new_Date r =
     (case new_Date (property r (str ''from'')) of
        Throw \<Rightarrow> Throw
      | Normal f \<Rightarrow>
          (case new_Date (property r (str ''to'')) of
             Throw \<Rightarrow> Throw
           | Normal t \<Rightarrow> Normal \<lparr>from' = f, to' = t\<rparr>))"

text \<open>
  \<open>loadFromStorage\<close>, given the outcome of \<open>localStorage.getItem\<close>, and
  \<open>JSON.parse\<close> and the \<open>Date\<close> constructor of the engine. Every exception is
  caught and gives \<open>null\<close>: calling \<open>map\<close> on a string or an object is one.
\<close>

definition loadFromStorage ::
  "jstring option completion \<Rightarrow> (jstring \<Rightarrow> json completion)
     \<Rightarrow> (json option \<Rightarrow> int option completion) \<Rightarrow> LoadFromStorageResult option" where
  "loadFromStorage getItem JSON_parse new_Date =
     (case getItem of
        Throw \<Rightarrow> None
      | Normal None \<Rightarrow> None
      | Normal (Some raw) \<Rightarrow>
         if raw = [] then None
         else (case JSON_parse raw of
            Throw \<Rightarrow> None
          | Normal parsed \<Rightarrow>
             if \<not> truthy (opt_prop (opt_prop (Some parsed) (str ''transactions'')) (str ''length''))
                \<or> \<not> truthy (opt_prop (Some parsed) (str ''dateRange''))
             then None
             else (case opt_prop (Some parsed) (str ''dateRange'') of
                None \<Rightarrow> None
              | Some stored_range \<Rightarrow>
               (case restore_range new_Date stored_range of
                Throw \<Rightarrow> None
              | Normal dr \<Rightarrow>
                 (case (case property parsed (str ''transactions'') of
                          Some (JArr ts) \<Rightarrow> map_completion (restore new_Date) ts
                        | _ \<Rightarrow> Throw) of
                    Throw \<Rightarrow> None
                  | Normal txs \<Rightarrow>
                     (case (case property parsed (str ''selectedRange'') of
                              None \<Rightarrow> Normal dr
                            | Some sr \<Rightarrow>
                                if truthy (opt_prop (Some sr) (str ''from''))
                                   \<and> truthy (opt_prop (Some sr) (str ''to''))
                                then restore_range new_Date sr
                                else Normal dr) of
                        Throw \<Rightarrow> None
                      | Normal sel \<Rightarrow>
                         Some \<lparr>data =
                                 \<lparr>bankName =
                                    (case property parsed (str ''bankName'') of
                                       None \<Rightarrow> JStr (str ''Saved data'')
                                     | Some b \<Rightarrow>
                                         if truthy (Some b) then b
                                         else JStr (str ''Saved data'')),
                                  transactions = txs,
                                  dateRange = dr\<rparr>,
                               selectedRange = sel\<rparr>))))))"

section \<open>A runtime for the closed examples\<close>

text \<open>
  The examples below run the functions on concrete input. They need the
  built-ins at that input only: case mapping on ASCII letters, the numbers and
  the dates the examples contain, and the delimited parse of a text without
  quotes.
\<close>

definition ascii_lower :: "nat \<Rightarrow> nat" where
  "ascii_lower c = (if 0x41 \<le> c \<and> c \<le> 0x5A then c + 0x20 else c)"

definition ascii_upper :: "nat \<Rightarrow> nat" where
  "ascii_upper c = (if 0x61 \<le> c \<and> c \<le> 0x7A then c - 0x20 else c)"

definition demo_parseFloat :: "jstring \<Rightarrow> jsnum" where
  "demo_parseFloat s =
     (case map_of [(str ''1234.56'', Finite (123456 / 100)), (str ''-150.50'', Finite (- 301 / 2)),
                   (str ''2000'', Finite 2000), (str ''5'', Finite 5), (str ''0'', Finite 0)] s of
        Some n \<Rightarrow> n
      | None \<Rightarrow> NaN)"

text \<open>Midnight UTC of 1 and 3 February 2024, in the layout \<open>dd.MM.yyyy\<close>.\<close>

definition demo_parse :: "jstring \<Rightarrow> jstring \<Rightarrow> int \<Rightarrow> int option" where
  "demo_parse s layout reference =
     (if layout = str ''dd.MM.yyyy''
      then map_of [(str ''01.02.2024'', 1706745600000), (str ''03.02.2024'', 1706918400000)] s
      else None)"

text \<open>
  The record of a row under a header, as Papa Parse builds it: each field under
  its column, the fields beyond the header in the array \<open>__parsed_extra\<close>; and
  the error it reports for a row that has more or fewer fields than the header
  (the message is not spelled out).
\<close>

definition record_of :: "jstring list \<Rightarrow> jstring list \<Rightarrow> row" where
  "record_of header fs =
     zip header (map (\<lambda>f. Some (Str f)) fs)
     @ (if length header < length fs
        then [(str ''__parsed_extra'', Some (Arr (drop (length header) fs)))]
        else [])"

definition mismatch :: "jstring list \<Rightarrow> jstring list \<Rightarrow> ParseError list" where
  "mismatch header fs =
     (if length header < length fs
      then [\<lparr>type' = str ''FieldMismatch'', code = str ''TooManyFields'',
              message = str ''Too many fields''\<rparr>]
      else if length fs < length header
      then [\<lparr>type' = str ''FieldMismatch'', code = str ''TooFewFields'',
              message = str ''Too few fields''\<rparr>]
      else [])"

definition simple_papa :: "jstring \<Rightarrow> jstring \<Rightarrow> ParseResult" where
  "simple_papa csv delim =
     (case filter (\<lambda>l. l \<noteq> []) (split 0xA csv) of
        [] \<Rightarrow> \<lparr>ParseResult.data = [], errors = []\<rparr>
      | h # rows \<Rightarrow>
          (let header = map trim (split (hd delim) h)
           in \<lparr>ParseResult.data = map (\<lambda>r. record_of header (split (hd delim) r)) rows,
                errors = concat (map (\<lambda>r. mismatch header (split (hd delim) r)) rows)\<rparr>))"

definition demo_runtime :: runtime where
  "demo_runtime =
     \<lparr>parseFloat = demo_parseFloat,
      toLowerCase = map ascii_lower,
      canonicalize = ascii_upper,
      parse = demo_parse,
      Date_parse = (\<lambda>s. None),
      Papa_parse = simple_papa\<rparr>"

text \<open>
  A statement without bank markers: a header, two valid rows (the older one
  first), a row without a date and a row whose amount does not parse.
\<close>

definition demo_file :: jstring where
  "demo_file =
     str ''date;amount;description'' @ [0xA] @
     str ''01.02.2024;-150,50;Shell station'' @ [0xA] @
     str ''03.02.2024;2000;salary'' @ [0xA] @
     str '';5;no date'' @ [0xA] @
     str ''03.02.2024;abc;no amount'' @ [0xA]"

definition demo_clock :: "nat \<Rightarrow> nat \<Rightarrow> int" where
  "demo_clock i k = 1730000000000 + int i * 4 + int k"

text \<open>
  \<open>Papa.parse\<close> on a text that is one header line ending inside a quoted field,
  \<open>date;amount;"x\<close>: Papa Parse reads the row \<open>date\<close>, \<open>amount\<close>, \<open>x\<close> and
  reports the error \<open>MissingQuotes\<close> of type \<open>Quotes\<close> for it; with
  \<open>header: true\<close> that only row is the header, and no record is left.
\<close>

definition unterminated_file :: jstring where
  "unterminated_file = str ''date;amount;'' @ [0x22] @ str ''x''"

definition quotes_papa :: "jstring \<Rightarrow> jstring \<Rightarrow> ParseResult" where
  "quotes_papa csv delim =
     (if csv = unterminated_file
      then \<lparr>ParseResult.data = [],
            errors = [\<lparr>type' = str ''Quotes'', code = str ''MissingQuotes'',
                       message = str ''Quoted field unterminated''\<rparr>]\<rparr>
      else simple_papa csv delim)"

definition quotes_runtime :: runtime where
  "quotes_runtime = demo_runtime\<lparr>Papa_parse := quotes_papa\<rparr>"

text \<open>The lines, the records and the result of \<open>parseCSV\<close> on \<open>demo_file\<close>.\<close>

definition demo_lines :: "jstring list" where
  "demo_lines =
     [str ''date;amount;description'', str ''01.02.2024;-150,50;Shell station'',
      str ''03.02.2024;2000;salary'', str '';5;no date'', str ''03.02.2024;abc;no amount'', []]"

definition demo_rows :: "row list" where
  "demo_rows =
    [[(str ''date'', Some (Str (str ''01.02.2024''))), (str ''amount'', Some (Str (str ''-150,50''))),
      (str ''description'', Some (Str (str ''Shell station'')))],
     [(str ''date'', Some (Str (str ''03.02.2024''))), (str ''amount'', Some (Str (str ''2000''))),
      (str ''description'', Some (Str (str ''salary'')))],
     [(str ''date'', Some (Str [])), (str ''amount'', Some (Str (str ''5''))),
      (str ''description'', Some (Str (str ''no date'')))],
     [(str ''date'', Some (Str (str ''03.02.2024''))), (str ''amount'', Some (Str (str ''abc''))),
      (str ''description'', Some (Str (str ''no amount'')))]]"

definition demo_result :: "cell ParsedData" where
  "demo_result =
     \<lparr>ParsedData.bankName = str ''Generic CSV'',
      transactions =
        [\<lparr>id' = 0, date = 1706918400000, amount = Finite 2000, currency = Str (str ''CZK''),
           counterparty = Str [], description = Str (str ''salary''),
           category = Str (str ''Ostatn'' @ [0xED]),
           variableSymbol = Str [], note' = Str [], operationType = Str [], internal = False\<rparr>,
         \<lparr>id' = 1, date = 1706745600000, amount = Finite (- 301 / 2), currency = Str (str ''CZK''),
           counterparty = Str [], description = Str (str ''Shell station''),
           category = Str (str ''Tankov'' @ [0xE1] @ str ''n'' @ [0xED]),
           variableSymbol = Str [], note' = Str [], operationType = Str [], internal = False\<rparr>],
      dateRange = \<lparr>DateRange.from' = 1706745600000, to' = 1706918400000\<rparr>\<rparr>"

text \<open>
  A statement with the markers of two banks: the first line is that of a CSOB
  export, the second holds the marker \<open>Datum splatnosti\<close> of Komercni banka;
  then the CSOB header and one row in euro. Below, its lines, the record of
  its row and the result of \<open>parseCSV\<close>.
\<close>

definition csob_columns :: "jstring list" where
  "csob_columns =
     [[0x10D, 0xED] @ str ''slo '' @ [0xFA, 0x10D] @ str ''tu'',
      str ''datum za'' @ [0xFA, 0x10D] @ str ''tov'' @ [0xE1] @ str ''n'' @ [0xED],
      [0x10D, 0xE1] @ str ''stka'', str ''m'' @ [0x11B] @ str ''na'',
      str ''zpr'' @ [0xE1] @ str ''va'']"

definition csob_file :: jstring where
  "csob_file =
     str ''Pohyby na '' @ [0xFA, 0x10D] @ str ''tu 123/0300'' @ [0xA] @
     str ''Datum splatnosti 05.02.2024'' @ [0xA] @
     join (str '';'') csob_columns @ [0xA] @
     str ''123;01.02.2024;-150,50;EUR;Shell''"

definition csob_lines :: "jstring list" where
  "csob_lines =
     [str ''Pohyby na '' @ [0xFA, 0x10D] @ str ''tu 123/0300'', str ''Datum splatnosti 05.02.2024'',
      join (str '';'') csob_columns, str ''123;01.02.2024;-150,50;EUR;Shell'']"

definition csob_rows :: "row list" where
  "csob_rows =
     [zip csob_columns
        (map (\<lambda>f. Some (Str f))
           [str ''123'', str ''01.02.2024'', str ''-150,50'', str ''EUR'', str ''Shell''])]"

definition csob_result :: "cell ParsedData" where
  "csob_result =
     \<lparr>ParsedData.bankName = [0x10C] @ str ''SOB'',
      transactions =
        [\<lparr>id' = 0, date = 1706745600000, amount = Finite (- 301 / 2), currency = Str (str ''EUR''),
           counterparty = Str [], description = Str (str ''Shell''),
           category = Str (str ''Ostatn'' @ [0xED]),
           variableSymbol = Str [], note' = Str [], operationType = Str [], internal = False\<rparr>],
      dateRange = \<lparr>DateRange.from' = 1706745600000, to' = 1706745600000\<rparr>\<rparr>"

section \<open>Notions used in the statements\<close>

text \<open>The four layouts \<open>parseDate\<close> gives to date-fns, in the order it tries them.\<close>

definition date_layouts :: "jstring list" where
  "date_layouts = [str ''dd.MM.yyyy'', str ''d.M.yyyy'', str ''yyyy-MM-dd'', str ''dd/MM/yyyy'']"

text \<open>
  The specification of \<open>parseDate\<close> in the spec's words: the attempts on the
  trimmed string, the four layouts in order and then the free-form parse, and
  the first attempt that gives a valid date.
\<close>

definition attempts :: "runtime \<Rightarrow> (nat \<Rightarrow> int) \<Rightarrow> jstring \<Rightarrow> int option list" where
  "attempts rt clk t =
     map (\<lambda>(k, layout). parse rt t layout (clk k)) (enumerate 0 date_layouts) @ [Date_parse rt t]"

definition first_valid :: "int option list \<Rightarrow> int option" where
  "first_valid rs = (case find (\<lambda>r. r \<noteq> None) rs of None \<Rightarrow> None | Some r \<Rightarrow> r)"

text \<open>
  The condition under which \<open>parseCSV\<close> raises the parsing error: an error that
  is not a \<open>FieldMismatch\<close>, and no record.
\<close>

definition fails_critically :: "ParseResult \<Rightarrow> bool" where
  "fails_critically result \<longleftrightarrow>
     errors result \<noteq> [] \<and> criticalErrors result \<noteq> [] \<and> ParseResult.data result = []"

text \<open>The category of the third rule, the fuel rule.\<close>

definition Tankovani :: jstring where
  "Tankovani = str ''Tankov'' @ [0xE1] @ str ''n'' @ [0xED]"

section \<open>More input for the closed examples\<close>

text \<open>
  A statement with a header whose three rows are all dropped: the first has no
  date, the amount of the second does not parse, and the third has a field
  beyond the header, which the generic mapper takes for the description and
  hands to \<open>guessCategory\<close>.
\<close>

definition filtered_file :: jstring where
  "filtered_file =
     str ''date;amount'' @ [0xA] @ str '';5'' @ [0xA] @ str ''01.02.2024;abc'' @ [0xA] @
     str ''01.02.2024;5;x''"

definition filtered_lines :: "jstring list" where
  "filtered_lines =
     [str ''date;amount'', str '';5'', str ''01.02.2024;abc'', str ''01.02.2024;5;x'']"

definition surplus_row :: row where
  "surplus_row =
     [(str ''date'', Some (Str (str ''01.02.2024''))), (str ''amount'', Some (Str (str ''5''))),
      (str ''__parsed_extra'', Some (Arr [str ''x'']))]"

definition filtered_rows :: "row list" where
  "filtered_rows =
     [[(str ''date'', Some (Str [])), (str ''amount'', Some (Str (str ''5'')))],
      [(str ''date'', Some (Str (str ''01.02.2024''))), (str ''amount'', Some (Str (str ''abc'')))],
      surplus_row]"

definition filtered_result :: ParseResult where
  "filtered_result =
     \<lparr>ParseResult.data = filtered_rows,
      errors = [\<lparr>type' = str ''FieldMismatch'', code = str ''TooManyFields'',
                 message = str ''Too many fields''\<rparr>]\<rparr>"

text \<open>
  A saved payload, as \<open>saveToStorage\<close> writes it, the value \<open>JSON.parse\<close> gives
  for it, the \<open>Date\<close> constructor on the two timestamps it contains, and what
  \<open>loadFromStorage\<close> restores.
\<close>

definition stored_text :: jstring where
  "stored_text =
     str ''{'' @ [0x22] @ str ''bankName'' @ [0x22] @ str '':'' @ [0x22] @ str ''Moneta'' @
     [0x22] @ str '','' @ [0x22] @ str ''dateRange'' @ [0x22] @ str '':{'' @ [0x22] @
     str ''from'' @ [0x22] @ str '':'' @ [0x22] @ str ''2024-02-01T00:00:00.000Z'' @
     [0x22] @ str '','' @ [0x22] @ str ''to'' @ [0x22] @ str '':'' @ [0x22] @
     str ''2024-02-03T00:00:00.000Z'' @ [0x22] @ str ''},'' @ [0x22] @
     str ''transactions'' @ [0x22] @ str '':[{'' @ [0x22] @ str ''id'' @ [0x22] @
     str '':0,'' @ [0x22] @ str ''date'' @ [0x22] @ str '':'' @ [0x22] @
     str ''2024-02-03T00:00:00.000Z'' @ [0x22] @ str '','' @ [0x22] @ str ''amount'' @
     [0x22] @ str '':2000,'' @ [0x22] @ str ''internal'' @ [0x22] @ str '':true}],'' @
     [0x22] @ str ''selectedRange'' @ [0x22] @ str '':null}''"

definition stored_payload :: json where
  "stored_payload =
     JObj [(str ''bankName'', JStr (str ''Moneta'')),
           (str ''dateRange'',
              JObj [(str ''from'', JStr (str ''2024-02-01T00:00:00.000Z'')),
                    (str ''to'', JStr (str ''2024-02-03T00:00:00.000Z''))]),
           (str ''transactions'',
              JArr [JObj [(str ''id'', JNum (Finite 0)),
                          (str ''date'', JStr (str ''2024-02-03T00:00:00.000Z'')),
                          (str ''amount'', JNum (Finite 2000)),
                          (str ''internal'', JBool True)]]),
           (str ''selectedRange'', JNull)]"

definition demo_JSON_parse :: "jstring \<Rightarrow> json completion" where
  "demo_JSON_parse raw = (if raw = stored_text then Normal stored_payload else Throw)"

definition demo_new_Date :: "json option \<Rightarrow> int option completion" where
  "demo_new_Date v =
     (case v of
        Some (JStr s) \<Rightarrow>
          Normal (map_of [(str ''2024-02-01T00:00:00.000Z'', 1706745600000),
                          (str ''2024-02-03T00:00:00.000Z'', 1706918400000)] s)
      | _ \<Rightarrow> Normal None)"

definition stored_result :: LoadFromStorageResult where
  "stored_result =
     \<lparr>data =
        \<lparr>bankName = JStr (str ''Moneta''),
         transactions =
           [\<lparr>source = JObj [(str ''id'', JNum (Finite 0)),
                            (str ''date'', JStr (str ''2024-02-03T00:00:00.000Z'')),
                            (str ''amount'', JNum (Finite 2000)),
                            (str ''internal'', JBool True)],
             date = Some 1706918400000, internal = True\<rparr>],
         dateRange = \<lparr>from' = Some 1706745600000, to' = Some 1706918400000\<rparr>\<rparr>,
      selectedRange = \<lparr>from' = Some 1706745600000, to' = Some 1706918400000\<rparr>\<rparr>"

section \<open>Facts about the sort and the renumbering\<close>

lemma set_insert_cmp: "set (insert_cmp cmp x xs) = insert x (set xs)"
  by (induction xs) auto

lemma length_insert_cmp: "length (insert_cmp cmp x xs) = Suc (length xs)"
  by (induction xs) auto

lemma length_sort_cmp: "length (sort_cmp cmp xs) = length xs"
  by (induction xs) (auto simp: length_insert_cmp)

lemma insert_cmp_by_date_desc:
  assumes "sorted_wrt (\<lambda>a b. Transaction.date b \<le> Transaction.date a) xs"
  shows "sorted_wrt (\<lambda>a b. Transaction.date b \<le> Transaction.date a) (insert_cmp by_date_desc x xs)"
  using assms by (induction xs) (auto simp: set_insert_cmp by_date_desc_def)

lemma sort_cmp_by_date_desc:
  "sorted_wrt (\<lambda>a b. Transaction.date b \<le> Transaction.date a) (sort_cmp by_date_desc xs)"
  by (induction xs) (simp_all add: insert_cmp_by_date_desc)

lemma dates_assign_ids: "map Transaction.date (assign_ids i ts) = map Transaction.date ts"
  by (induction ts arbitrary: i) auto

lemma ids_assign_ids: "map id' (assign_ids i ts) = [i..<i + length ts]"
  by (induction ts arbitrary: i) (auto simp: upt_rec)

lemma length_assign_ids: "length (assign_ids i ts) = length ts"
  by (induction ts arbitrary: i) auto

lemma assign_ids_by_date_desc:
  "sorted_wrt (\<lambda>a b. Transaction.date b \<le> Transaction.date a) (assign_ids i ts)
     \<longleftrightarrow> sorted_wrt (\<lambda>a b. Transaction.date b \<le> Transaction.date a) ts"
proof -
  have by_dates: "sorted_wrt (\<lambda>a b. Transaction.date b \<le> Transaction.date a) us
          \<longleftrightarrow> sorted_wrt (\<lambda>a b. b \<le> a) (map Transaction.date us)" for us
    by (simp add: sorted_wrt_map)
  show ?thesis
    by (simp only: by_dates dates_assign_ids)
qed

section \<open>What a successful parse returns\<close>

lemma parseCSV_Inr:
  assumes "parseCSV rt clock c = Inr pd"
  shows "\<exists>ts. ts \<noteq> [] \<and> ParsedData.transactions pd = assign_ids 0 (sort_cmp by_date_desc ts)"
    and "ParsedData.dateRange pd =
          \<lparr>DateRange.from' = Transaction.date
             (ParsedData.transactions pd ! (length (ParsedData.transactions pd) - 1)),
           to' = Transaction.date (ParsedData.transactions pd ! 0)\<rparr>"
    and "ParsedData.bankName pd = name (select_format rt (take 10 (file_lines c)))"
  using assms unfolding parseCSV_def Let_def
  by (auto split: option.splits if_splits)

section \<open>The example file, step by step\<close>

lemma demo_file_lines: "file_lines demo_file = demo_lines"
  by (simp add: file_lines_def demo_file_def demo_lines_def strip_bom_def str_def trim_def
      isWhiteSpace_def)

lemma demo_select: "select_format demo_runtime (take 10 demo_lines) = generic demo_runtime"
  by (simp add: select_format_def BANK_FORMATS_def csob_def moneta_def kb_def demo_lines_def
      str_def)

lemma demo_header: "headerRow (generic demo_runtime) demo_lines = Some 0"
  by (simp add: generic_def demo_runtime_def demo_lines_def str_def ascii_lower_def)

lemma demo_name: "name (generic demo_runtime) = str ''Generic CSV''"
  by (simp add: generic_def)

lemma demo_papa:
  "Papa_parse demo_runtime (join [0xA] demo_lines) (delimiter (generic demo_runtime))
     = \<lparr>ParseResult.data = demo_rows, errors = []\<rparr>"
  by (simp add: generic_def demo_runtime_def demo_lines_def demo_rows_def simple_papa_def
      record_of_def mismatch_def Let_def str_def trim_def isWhiteSpace_def)

lemma demo_map_rows:
  "List.map_filter (map_row (generic demo_runtime) clock) (enumerate 0 demo_rows)
   = [\<lparr>id' = 0, date = 1706745600000, amount = Finite (- 301 / 2), currency = Str (str ''CZK''),
           counterparty = Str [], description = Str (str ''Shell station''),
           category = Str (str ''Tankov'' @ [0xE1] @ str ''n'' @ [0xED]),
           variableSymbol = Str [], note' = Str [], operationType = Str [], internal = False\<rparr>,
      \<lparr>id' = 1, date = 1706918400000, amount = Finite 2000, currency = Str (str ''CZK''),
           counterparty = Str [], description = Str (str ''salary''),
           category = Str (str ''Ostatn'' @ [0xED]),
           variableSymbol = Str [], note' = Str [], operationType = Str [], internal = False\<rparr>]"
  by (simp add: List.map_filter_def map_row_def generic_def demo_runtime_def demo_rows_def
       parseDate_def parseCzechNumber_def cleaned_def demo_parse_def demo_parseFloat_def
       regex_i_test_def keys_def get_def field_def nullish_def nullish_undefined_def at'_def
       category_of_def String_of_def guessCategory_def rules_def rule_matches_def Ostatni_def
       str_def trim_def isWhiteSpace_def ascii_lower_def ascii_upper_def)

lemma demo_parseCSV: "parseCSV demo_runtime clock demo_file = Inr demo_result"
  by (simp add: parseCSV_def Let_def demo_file_lines demo_select demo_header demo_papa
       demo_map_rows demo_name by_date_desc_def demo_result_def)

section \<open>Order, numbering and date range of a parsed statement\<close>

lemma desc_last_Min:
  assumes "sorted_wrt (\<lambda>a b. b \<le> a) (ds :: int list)" and "ds \<noteq> []"
  shows "ds ! (length ds - 1) = Min (set ds)" and "ds ! 0 = Max (set ds)"
proof -
  have "\<forall>x\<in>set ds. last ds \<le> x"
    using assms by (induction ds) auto
  then have "Min (set ds) = last ds"
    using assms(2) by (intro Min_eqI) auto
  then show "ds ! (length ds - 1) = Min (set ds)"
    using assms(2) by (simp add: last_conv_nth)
  have "\<forall>x\<in>set ds. x \<le> hd ds"
    using assms by (cases ds) auto
  then have "Max (set ds) = hd ds"
    using assms(2) by (intro Max_eqI) auto
  then show "ds ! 0 = Max (set ds)"
    using assms(2) by (simp add: hd_conv_nth)
qed

text \<open>
  Claim C1. Whenever \<open>parseCSV\<close> succeeds, the transactions it returns are in
  non-increasing order of date (newest first), and their ids, read in list order,
  are 0, 1, ..., N - 1 for a list of length N.
\<close>

theorem parseCSV_sorted_and_numbered:
  assumes "parseCSV rt clock fileContent = Inr pd"
  shows "sorted_wrt (\<lambda>a b. Transaction.date b \<le> Transaction.date a) (ParsedData.transactions pd)
         \<and> map id' (ParsedData.transactions pd) = [0..<length (ParsedData.transactions pd)]"
proof -
  obtain ts where tx: "ParsedData.transactions pd = assign_ids 0 (sort_cmp by_date_desc ts)"
    using parseCSV_Inr(1) [OF assms] by blast
  show ?thesis
    by (simp add: tx assign_ids_by_date_desc sort_cmp_by_date_desc ids_assign_ids
        length_assign_ids)
qed

theorem parseCSV_sorted_and_numbered_witness:
  "parseCSV demo_runtime demo_clock demo_file = Inr demo_result
   \<and> sorted_wrt (\<lambda>a b. Transaction.date b \<le> Transaction.date a) (ParsedData.transactions demo_result)
   \<and> map id' (ParsedData.transactions demo_result) = [0..<length (ParsedData.transactions demo_result)]
   \<and> map id' (ParsedData.transactions demo_result) = [0, 1]"
  using parseCSV_sorted_and_numbered [OF demo_parseCSV [of demo_clock]] demo_parseCSV [of demo_clock]
  by (simp add: demo_result_def)

text \<open>
  Claim C2. Whenever \<open>parseCSV\<close> succeeds, \<open>dateRange.from\<close> is the least and
  \<open>dateRange.to\<close> the greatest date of the returned transactions, so that
  \<open>from \<le> to\<close> (the returned list is never empty).
\<close>

theorem parseCSV_dateRange:
  assumes "parseCSV rt clock fileContent = Inr pd"
  shows "DateRange.from' (ParsedData.dateRange pd)
           = Min (Transaction.date ` set (ParsedData.transactions pd))
         \<and> DateRange.to' (ParsedData.dateRange pd)
           = Max (Transaction.date ` set (ParsedData.transactions pd))
         \<and> DateRange.from' (ParsedData.dateRange pd) \<le> DateRange.to' (ParsedData.dateRange pd)"
proof -
  let ?tx = "ParsedData.transactions pd"
  let ?ds = "map Transaction.date ?tx"
  obtain ts where ts: "ts \<noteq> []" and tx: "?tx = assign_ids 0 (sort_cmp by_date_desc ts)"
    using parseCSV_Inr(1) [OF assms] by blast
  have ne: "?tx \<noteq> []"
    using ts by (metis tx length_assign_ids length_sort_cmp length_0_conv)
  have "sorted_wrt (\<lambda>a b. Transaction.date b \<le> Transaction.date a) ?tx"
    by (simp add: tx assign_ids_by_date_desc sort_cmp_by_date_desc)
  then have sorted: "sorted_wrt (\<lambda>a b. b \<le> a) ?ds"
    by (simp add: sorted_wrt_map)
  have ne': "?ds \<noteq> []" using ne by simp
  have lo: "?ds ! (length ?ds - 1) = Min (set ?ds)" and hi: "?ds ! 0 = Max (set ?ds)"
    using desc_last_Min [OF sorted ne'] by blast+
  have lo': "DateRange.from' (ParsedData.dateRange pd) = ?ds ! (length ?ds - 1)"
    using ne by (simp add: parseCSV_Inr(2) [OF assms])
  have hi': "DateRange.to' (ParsedData.dateRange pd) = ?ds ! 0"
    using ne by (simp add: parseCSV_Inr(2) [OF assms])
  obtain x where x: "x \<in> set ?ds"
    using ne' by (meson last_in_set)
  have "Min (set ?ds) \<le> x" and "x \<le> Max (set ?ds)"
    using x by simp_all
  then have "Min (set ?ds) \<le> Max (set ?ds)"
    by (rule order_trans)
  then show ?thesis
    using lo hi lo' hi' by simp
qed

theorem parseCSV_dateRange_witness:
  "parseCSV demo_runtime demo_clock demo_file = Inr demo_result
   \<and> DateRange.from' (ParsedData.dateRange demo_result) = 1706745600000
   \<and> Min (Transaction.date ` set (ParsedData.transactions demo_result)) = 1706745600000
   \<and> DateRange.to' (ParsedData.dateRange demo_result) = 1706918400000
   \<and> Max (Transaction.date ` set (ParsedData.transactions demo_result)) = 1706918400000"
  using parseCSV_dateRange [OF demo_parseCSV [of demo_clock]] demo_parseCSV [of demo_clock]
  by (simp add: demo_result_def)

section \<open>No empty success\<close>

lemma filtered_file_lines: "file_lines filtered_file = filtered_lines"
  by (simp add: file_lines_def filtered_file_def filtered_lines_def strip_bom_def str_def trim_def
      isWhiteSpace_def)

lemma filtered_select: "select_format demo_runtime (take 10 filtered_lines) = generic demo_runtime"
  by (simp add: select_format_def BANK_FORMATS_def csob_def moneta_def kb_def filtered_lines_def
      str_def)

lemma filtered_header: "headerRow (generic demo_runtime) filtered_lines = Some 0"
  by (simp add: generic_def demo_runtime_def filtered_lines_def str_def ascii_lower_def)

lemma filtered_papa:
  "Papa_parse demo_runtime (join [0xA] (drop 0 filtered_lines)) (delimiter (generic demo_runtime))
     = filtered_result"
  by (simp add: generic_def demo_runtime_def filtered_lines_def filtered_rows_def
      filtered_result_def surplus_row_def simple_papa_def record_of_def mismatch_def Let_def
      str_def trim_def isWhiteSpace_def)

lemma surplus_row_raises: "map' (generic demo_runtime) clk surplus_row = None"
  by (simp add: generic_def demo_runtime_def surplus_row_def
       regex_i_test_def keys_def get_def field_def nullish_def nullish_undefined_def at'_def
       category_of_def str_def ascii_upper_def)

lemma no_date_row_dropped:
  "map_row (generic demo_runtime) clock
     (i, [(str ''date'', Some (Str [])), (str ''amount'', Some (Str (str ''5'')))]) = None"
  by (simp add: map_row_def generic_def demo_runtime_def
       parseDate_def parseCzechNumber_def cleaned_def demo_parse_def demo_parseFloat_def
       regex_i_test_def keys_def get_def field_def nullish_def nullish_undefined_def at'_def
       category_of_def String_of_def guessCategory_def rules_def rule_matches_def
       str_def trim_def isWhiteSpace_def ascii_lower_def ascii_upper_def)

lemma no_amount_row_dropped:
  "map_row (generic demo_runtime) clock
     (i, [(str ''date'', Some (Str (str ''01.02.2024''))),
          (str ''amount'', Some (Str (str ''abc'')))]) = None"
  by (simp add: map_row_def generic_def demo_runtime_def
       parseDate_def parseCzechNumber_def cleaned_def demo_parse_def demo_parseFloat_def
       regex_i_test_def keys_def get_def field_def nullish_def nullish_undefined_def at'_def
       category_of_def String_of_def guessCategory_def rules_def rule_matches_def
       str_def trim_def isWhiteSpace_def ascii_lower_def ascii_upper_def)

lemma surplus_row_dropped: "map_row (generic demo_runtime) clock (i, surplus_row) = None"
  by (simp add: map_row_def surplus_row_raises)

lemma filtered_all_dropped:
  "list_all (\<lambda>ir. map_row (generic demo_runtime) clock ir = None) (enumerate 0 filtered_rows)"
  by (simp add: filtered_rows_def no_date_row_dropped no_amount_row_dropped surplus_row_dropped)

lemma filtered_not_critical: "\<not> fails_critically filtered_result"
  by (simp add: fails_critically_def filtered_result_def criticalErrors_def)

lemma unterminated_lines: "file_lines unterminated_file = [unterminated_file]"
  by (simp add: file_lines_def unterminated_file_def strip_bom_def str_def trim_def
      isWhiteSpace_def)

lemma unterminated_select:
  "select_format quotes_runtime [unterminated_file] = generic quotes_runtime"
  by (simp add: select_format_def BANK_FORMATS_def csob_def moneta_def kb_def
      unterminated_file_def str_def)

lemma unterminated_header: "headerRow (generic quotes_runtime) [unterminated_file] = Some 0"
  by (simp add: generic_def quotes_runtime_def demo_runtime_def unterminated_file_def str_def
      ascii_lower_def)

lemma unterminated_papa:
  "Papa_parse quotes_runtime unterminated_file (delimiter (generic quotes_runtime))
     = \<lparr>ParseResult.data = [],
        errors = [\<lparr>type' = str ''Quotes'', code = str ''MissingQuotes'',
                   message = str ''Quoted field unterminated''\<rparr>]\<rparr>"
  by (simp add: quotes_runtime_def quotes_papa_def)

lemma map_filter_empty:
  "List.map_filter f xs = [] \<longleftrightarrow> list_all (\<lambda>x. f x = None) xs"
  by (induction xs) (auto simp: List.map_filter_def)

lemma map_row_dropped:
  "map_row fmt clock ir = None \<longleftrightarrow>
     (case map' fmt (clock (fst ir)) (snd ir) of
        None \<Rightarrow> True
      | Some mapped \<Rightarrow> MappedRow.date mapped = None \<or> MappedRow.amount mapped = Finite 0)"
  by (simp add: map_row_def split: option.splits)

text \<open>
  Claim C3, as amended. \<open>parseCSV\<close> never succeeds with an empty transaction
  list. When a header row was located, the delimited parse did not fail
  critically, and every record is dropped by the row mapping, \<open>parseCSV\<close> fails
  with \<open>NoValidTransactions\<close>. A record is dropped exactly when the mapper of
  the format raised, or the mapped date is \<open>null\<close>, or the mapped amount is zero.
\<close>

theorem parseCSV_no_empty_success:
  assumes "fmt = select_format rt (take 10 (file_lines fileContent))"
    and "result = Papa_parse rt (join [0xA] (drop headerIdx (file_lines fileContent))) (delimiter fmt)"
  shows "(parseCSV rt clock fileContent = Inr pd \<longrightarrow> ParsedData.transactions pd \<noteq> [])
       \<and> (headerRow fmt (file_lines fileContent) = Some headerIdx
          \<and> \<not> fails_critically result
          \<and> list_all (\<lambda>ir. map_row fmt clock ir = None) (enumerate 0 (ParseResult.data result))
          \<longrightarrow> parseCSV rt clock fileContent = Inl NoValidTransactions)
       \<and> (map_row fmt clock ir = None \<longleftrightarrow>
            map' fmt (clock (fst ir)) (snd ir) = None
            \<or> (\<exists>mapped. map' fmt (clock (fst ir)) (snd ir) = Some mapped
                  \<and> (MappedRow.date mapped = None \<or> MappedRow.amount mapped = Finite 0)))"
proof (intro conjI impI)
  assume ok: "parseCSV rt clock fileContent = Inr pd"
  then obtain ts where "ts \<noteq> []"
    and "ParsedData.transactions pd = assign_ids 0 (sort_cmp by_date_desc ts)"
    using parseCSV_Inr(1) by blast
  then show "ParsedData.transactions pd \<noteq> []"
    by (metis length_assign_ids length_sort_cmp length_0_conv)
next
  assume h: "headerRow fmt (file_lines fileContent) = Some headerIdx
          \<and> \<not> fails_critically result
          \<and> list_all (\<lambda>ir. map_row fmt clock ir = None) (enumerate 0 (ParseResult.data result))"
  then have none: "List.map_filter (map_row fmt clock) (enumerate 0 (ParseResult.data result)) = []"
    by (simp add: map_filter_empty)
  show "parseCSV rt clock fileContent = Inl NoValidTransactions"
    using h none assms unfolding parseCSV_def Let_def fails_critically_def
    by auto
next
  show "map_row fmt clock ir = None \<longleftrightarrow>
            map' fmt (clock (fst ir)) (snd ir) = None
            \<or> (\<exists>mapped. map' fmt (clock (fst ir)) (snd ir) = Some mapped
                  \<and> (MappedRow.date mapped = None \<or> MappedRow.amount mapped = Finite 0))"
    unfolding map_row_dropped by (cases "map' fmt (clock (fst ir)) (snd ir)") simp_all
qed

theorem parseCSV_no_empty_success_witness:
  "parseCSV demo_runtime demo_clock demo_file = Inr demo_result
   \<and> ParsedData.transactions demo_result \<noteq> []
   \<and> headerRow (generic demo_runtime) (file_lines filtered_file) = Some 0
   \<and> \<not> fails_critically filtered_result
   \<and> list_all (\<lambda>ir. map_row (generic demo_runtime) demo_clock ir = None)
        (enumerate 0 (ParseResult.data filtered_result))
   \<and> map' (generic demo_runtime) (demo_clock 2) surplus_row = None
   \<and> map_row (generic demo_runtime) demo_clock (2, surplus_row) = None
   \<and> parseCSV demo_runtime demo_clock filtered_file = Inl NoValidTransactions"
proof -
  have fmt: "generic demo_runtime = select_format demo_runtime (take 10 (file_lines filtered_file))"
    by (simp add: filtered_file_lines filtered_select)
  have res: "filtered_result
      = Papa_parse demo_runtime (join [0xA] (drop 0 (file_lines filtered_file)))
          (delimiter (generic demo_runtime))"
    by (simp only: filtered_file_lines filtered_papa)
  have hd: "headerRow (generic demo_runtime) (file_lines filtered_file) = Some 0"
    by (simp add: filtered_file_lines filtered_header)
  have dropped: "list_all (\<lambda>ir. map_row (generic demo_runtime) demo_clock ir = None)
        (enumerate 0 (ParseResult.data filtered_result))"
    using filtered_all_dropped [of demo_clock] by (simp add: filtered_result_def)
  note t = parseCSV_no_empty_success [OF fmt res, of demo_clock demo_result "(2, surplus_row)"]
  have "parseCSV demo_runtime demo_clock filtered_file = Inl NoValidTransactions"
    using t hd filtered_not_critical dropped by blast
  moreover have "ParsedData.transactions demo_result \<noteq> []"
    by (simp add: demo_result_def)
  moreover have "map_row (generic demo_runtime) demo_clock (2, surplus_row) = None"
    using t surplus_row_raises [of "demo_clock 2"] by simp
  ultimately show ?thesis
    using demo_parseCSV [of demo_clock] hd filtered_not_critical dropped
      surplus_row_raises [of "demo_clock 2"]
    by simp
qed

text \<open>
  Claim C3 as stated does not hold: it leaves out the guard on the errors of
  the delimited parse. The one-line file \<open>date;amount;"x\<close> has a header row, which
  the generic format locates; Papa Parse reports the unterminated quote and
  returns no record, so every record (there is none) is dropped; and \<open>parseCSV\<close>
  raises the parsing error, not \<open>NoValidTransactions\<close>.
\<close>

theorem parseCSV_unterminated_header_counterexample:
  "headerRow (select_format quotes_runtime (take 10 (file_lines unterminated_file)))
      (file_lines unterminated_file) = Some 0
   \<and> ParseResult.data
         (Papa_parse quotes_runtime (join [0xA] (drop 0 (file_lines unterminated_file)))
            (delimiter (select_format quotes_runtime (take 10 (file_lines unterminated_file)))))
       = []
   \<and> List.map_filter
         (map_row (select_format quotes_runtime (take 10 (file_lines unterminated_file))) demo_clock)
         (enumerate 0 (ParseResult.data
            (Papa_parse quotes_runtime (join [0xA] (drop 0 (file_lines unterminated_file)))
               (delimiter (select_format quotes_runtime (take 10 (file_lines unterminated_file)))))))
       = []
   \<and> parseCSV quotes_runtime demo_clock unterminated_file
       = Inl (CsvParsingError (str ''Quoted field unterminated''))
   \<and> parseCSV quotes_runtime demo_clock unterminated_file \<noteq> Inl NoValidTransactions"
  by (simp add: parseCSV_def Let_def unterminated_lines unterminated_select unterminated_header
      unterminated_papa criticalErrors_def str_def)

section \<open>Format selection\<close>

lemma detect_generic: "detect (generic rt) fl"
  by (simp add: generic_def)

lemma select_format_find:
  "find (\<lambda>f. detect f firstLines) [csob rt, moneta rt, kb rt, generic rt]
     = Some (select_format rt firstLines)"
  by (simp add: select_format_def BANK_FORMATS_def str_def detect_generic)

lemma csob_file_lines: "file_lines csob_file = csob_lines"
  by (simp add: file_lines_def csob_file_def csob_lines_def csob_columns_def strip_bom_def
      str_def trim_def isWhiteSpace_def)

lemma csob_detect_kb: "detect (kb demo_runtime) (take 10 csob_lines)"
  by (simp add: kb_def csob_lines_def csob_columns_def str_def)

lemma csob_select: "select_format demo_runtime (take 10 csob_lines) = csob demo_runtime"
  by (simp add: select_format_def BANK_FORMATS_def csob_def csob_lines_def csob_columns_def
      str_def)

lemma csob_header: "headerRow (csob demo_runtime) csob_lines = Some 2"
  by (simp add: csob_def csob_lines_def csob_columns_def str_def)

lemma csob_name: "name (csob demo_runtime) = [0x10C] @ str ''SOB''"
  by (simp add: csob_def)

lemma csob_papa:
  "Papa_parse demo_runtime (join [0xA] (drop 2 csob_lines)) (delimiter (csob demo_runtime))
     = \<lparr>ParseResult.data = csob_rows, errors = []\<rparr>"
  by (simp add: csob_def demo_runtime_def csob_lines_def csob_rows_def csob_columns_def
      simple_papa_def record_of_def mismatch_def Let_def str_def trim_def isWhiteSpace_def)

lemma csob_map_rows:
  "List.map_filter (map_row (csob demo_runtime) clock) (enumerate 0 csob_rows)
     = [\<lparr>id' = 0, date = 1706745600000, amount = Finite (- 301 / 2), currency = Str (str ''EUR''),
           counterparty = Str [], description = Str (str ''Shell''),
           category = Str (str ''Ostatn'' @ [0xED]),
           variableSymbol = Str [], note' = Str [], operationType = Str [], internal = False\<rparr>]"
  by (simp add: List.map_filter_def map_row_def csob_def demo_runtime_def csob_rows_def
       csob_columns_def parseDate_def parseCzechNumber_def cleaned_def demo_parse_def
       demo_parseFloat_def get_def or_string_def or_undefined_def String_of_def
       str_def trim_def isWhiteSpace_def)

lemma csob_parseCSV: "parseCSV demo_runtime clock csob_file = Inr csob_result"
  by (simp add: parseCSV_def Let_def csob_file_lines csob_select csob_header csob_papa
       csob_map_rows csob_name by_date_desc_def csob_result_def)

text \<open>
  Claim C5. Format selection is the first match in the declared order: for the
  first 10 trimmed lines, the format \<open>parseCSV\<close> uses is the first of
  \<open>csob\<close>, \<open>moneta\<close>, \<open>kb\<close>, \<open>generic\<close> whose \<open>detect\<close> holds; the detector
  of \<open>generic\<close>, the last, always holds, so selection always succeeds. The
  format selected is the only one used for the rest of the file: the parse
  fails with \<open>HeaderNotFound\<close> exactly when its \<open>headerRow\<close> finds nothing, and
  otherwise the outcome is that of the delimited parse with its delimiter, of
  its row mapper on every record, and of its name.
\<close>

theorem select_format_first_match:
  assumes "fmt = select_format rt (take 10 (file_lines fileContent))"
    and "result = Papa_parse rt (join [0xA] (drop headerIdx (file_lines fileContent))) (delimiter fmt)"
    and "kept = List.map_filter (map_row fmt clock) (enumerate 0 (ParseResult.data result))"
  shows "map snd (BANK_FORMATS rt) = [csob rt, moneta rt, kb rt, generic rt]
   \<and> find (\<lambda>f. detect f firstLines) [csob rt, moneta rt, kb rt, generic rt]
       = Some (select_format rt firstLines)
   \<and> detect (generic rt) firstLines
   \<and> detect (select_format rt firstLines) firstLines
   \<and> (parseCSV rt clock fileContent = Inl HeaderNotFound \<longleftrightarrow>
        headerRow fmt (file_lines fileContent) = None)
   \<and> (headerRow fmt (file_lines fileContent) = Some headerIdx \<longrightarrow>
        parseCSV rt clock fileContent =
          (if fails_critically result
           then Inl (CsvParsingError (message (hd (criticalErrors result))))
           else if kept = [] then Inl NoValidTransactions
           else Inr \<lparr>ParsedData.bankName = name fmt,
                     transactions = assign_ids 0 (sort_cmp by_date_desc kept),
                     dateRange =
                       \<lparr>DateRange.from' = Transaction.date
                          (assign_ids 0 (sort_cmp by_date_desc kept) ! (length kept - 1)),
                        to' = Transaction.date
                          (assign_ids 0 (sort_cmp by_date_desc kept) ! 0)\<rparr>\<rparr>))"
proof -
  have order: "map snd (BANK_FORMATS rt) = [csob rt, moneta rt, kb rt, generic rt]"
    by (simp add: BANK_FORMATS_def)
  have sel: "detect (select_format rt firstLines) firstLines"
    using select_format_find [of firstLines rt]
    by (rule find_Some_iff [THEN iffD1, THEN exE]) auto
  have header: "parseCSV rt clock fileContent = Inl HeaderNotFound \<longleftrightarrow>
        headerRow fmt (file_lines fileContent) = None"
    unfolding parseCSV_def Let_def assms(1) by (simp split: option.splits)
  have rest: "headerRow fmt (file_lines fileContent) = Some headerIdx \<longrightarrow>
        parseCSV rt clock fileContent =
          (if fails_critically result
           then Inl (CsvParsingError (message (hd (criticalErrors result))))
           else if kept = [] then Inl NoValidTransactions
           else Inr \<lparr>ParsedData.bankName = name fmt,
                     transactions = assign_ids 0 (sort_cmp by_date_desc kept),
                     dateRange =
                       \<lparr>DateRange.from' = Transaction.date
                          (assign_ids 0 (sort_cmp by_date_desc kept) ! (length kept - 1)),
                        to' = Transaction.date
                          (assign_ids 0 (sort_cmp by_date_desc kept) ! 0)\<rparr>\<rparr>)"
    unfolding parseCSV_def Let_def assms fails_critically_def
    by (simp add: length_assign_ids length_sort_cmp)
  show ?thesis
    using order select_format_find detect_generic sel header rest by blast
qed

theorem select_format_first_match_witness:
  "detect (csob demo_runtime) (take 10 (file_lines csob_file))
   \<and> detect (kb demo_runtime) (take 10 (file_lines csob_file))
   \<and> select_format demo_runtime (take 10 (file_lines csob_file)) = csob demo_runtime
   \<and> headerRow (csob demo_runtime) (file_lines csob_file) = Some 2
   \<and> Papa_parse demo_runtime (join [0xA] (drop 2 (file_lines csob_file)))
        (delimiter (csob demo_runtime)) = \<lparr>ParseResult.data = csob_rows, errors = []\<rparr>
   \<and> parseCSV demo_runtime demo_clock csob_file = Inr csob_result
   \<and> ParsedData.bankName csob_result = name (csob demo_runtime)
   \<and> map Transaction.currency (ParsedData.transactions csob_result) = [Str (str ''EUR'')]
   \<and> select_format demo_runtime (take 10 (file_lines demo_file)) = generic demo_runtime
   \<and> parseCSV demo_runtime demo_clock demo_file = Inr demo_result"
proof -
  have fmt: "csob demo_runtime = select_format demo_runtime (take 10 (file_lines csob_file))"
    by (simp add: csob_file_lines csob_select)
  have res: "\<lparr>ParseResult.data = csob_rows, errors = []\<rparr>
      = Papa_parse demo_runtime (join [0xA] (drop 2 (file_lines csob_file)))
          (delimiter (csob demo_runtime))"
    by (simp only: csob_file_lines csob_papa)
  have kept: "List.map_filter (map_row (csob demo_runtime) demo_clock) (enumerate 0 csob_rows)
      = List.map_filter (map_row (csob demo_runtime) demo_clock)
          (enumerate 0 (ParseResult.data \<lparr>ParseResult.data = csob_rows, errors = []\<rparr>))"
    by simp
  have hd: "headerRow (csob demo_runtime) (file_lines csob_file) = Some 2"
    by (simp add: csob_file_lines csob_header)
  note t = select_format_first_match [OF fmt res kept, of "take 10 (file_lines csob_file)"]
  have d: "detect (csob demo_runtime) (take 10 (file_lines csob_file))"
    using t fmt by simp
  have nc: "\<not> fails_critically \<lparr>ParseResult.data = csob_rows, errors = []\<rparr>"
    by (simp add: fails_critically_def)
  have "parseCSV demo_runtime demo_clock csob_file = Inr csob_result"
    using t hd nc by (simp add: csob_map_rows csob_name by_date_desc_def csob_result_def)
  then show ?thesis
    using d hd res [symmetric] csob_detect_kb csob_file_lines csob_select demo_file_lines
      demo_select demo_parseCSV [of demo_clock]
    by (simp add: csob_name csob_result_def)
qed

section \<open>The amount parser\<close>

lemma cleaned_no_space: "list_all (\<lambda>c. \<not> isWhiteSpace c) (cleaned s)"
proof -
  have keep: "list_all (\<lambda>c. \<not> isWhiteSpace c) (replace_first 0x2C 0x2E xs)"
    if "list_all (\<lambda>c. \<not> isWhiteSpace c) xs" for xs
    using that by (induction xs) (auto simp: isWhiteSpace_def)
  have "list_all (\<lambda>c. \<not> isWhiteSpace c) (filter (\<lambda>c. \<not> isWhiteSpace c) s)"
    by (simp add: list_all_iff)
  then show ?thesis
    unfolding cleaned_def by (rule keep)
qed

lemma replace_first_absent: "a \<notin> set xs \<Longrightarrow> replace_first a b xs = xs"
  by (induction xs) auto

lemma replace_first_append: "a \<notin> set xs \<Longrightarrow> replace_first a b (xs @ a # ys) = xs @ b # ys"
  by (induction xs) auto

text \<open>
  Claim C6. \<open>parseCzechNumber\<close> returns 0 for a missing or empty string (and
  for what is not a string), and wherever \<open>parseFloat\<close> gives NaN, so it never
  returns NaN; otherwise it returns
  what \<open>parseFloat\<close> gives for the cleaned string, which has no white space and
  a period in place of the (first) comma. The string \<open>1 234,56\<close> is cleaned to
  \<open>1234.56\<close> and so parses to 1234.56, and \<open>abc\<close> parses to 0.
\<close>

theorem parseCzechNumber_cleans_and_defaults:
  "parseCzechNumber rt None = Finite 0
   \<and> parseCzechNumber rt (Some (Str [])) = Finite 0
   \<and> parseCzechNumber rt (Some (Arr xs)) = Finite 0
   \<and> parseCzechNumber rt x \<noteq> NaN
   \<and> (s \<noteq> [] \<longrightarrow>
        parseCzechNumber rt (Some (Str s))
          = (if parseFloat rt (cleaned s) = NaN then Finite 0 else parseFloat rt (cleaned s)))
   \<and> list_all (\<lambda>c. \<not> isWhiteSpace c) (cleaned s)
   \<and> (0x2C \<notin> set s \<longrightarrow> cleaned s = filter (\<lambda>c. \<not> isWhiteSpace c) s)
   \<and> (0x2C \<notin> set a \<longrightarrow>
        cleaned (a @ [0x2C] @ b)
          = filter (\<lambda>c. \<not> isWhiteSpace c) a @ [0x2E] @ filter (\<lambda>c. \<not> isWhiteSpace c) b)
   \<and> cleaned (str ''1 234,56'') = str ''1234.56''
   \<and> (parseFloat rt (str ''1234.56'') = Finite (123456 / 100) \<longrightarrow>
        parseCzechNumber rt (Some (Str (str ''1 234,56''))) = Finite (123456 / 100))
   \<and> (parseFloat rt (str ''abc'') = NaN \<longrightarrow>
        parseCzechNumber rt (Some (Str (str ''abc''))) = Finite 0)"
proof -
  have c1: "cleaned (str ''1 234,56'') = str ''1234.56''"
    by (simp add: cleaned_def str_def isWhiteSpace_def)
  have c2: "cleaned (str ''abc'') = str ''abc''"
    by (simp add: cleaned_def str_def isWhiteSpace_def)
  have ne: "str ''1 234,56'' \<noteq> []" "str ''abc'' \<noteq> []"
    by (simp_all add: str_def)
  have nan: "parseCzechNumber rt x \<noteq> NaN"
    by (simp add: parseCzechNumber_def Let_def split: option.splits cell.splits)
  have gen: "s \<noteq> [] \<longrightarrow>
        parseCzechNumber rt (Some (Str s))
          = (if parseFloat rt (cleaned s) = NaN then Finite 0 else parseFloat rt (cleaned s))" for s
    by (simp add: parseCzechNumber_def Let_def)
  have nocomma: "0x2C \<notin> set s \<longrightarrow> cleaned s = filter (\<lambda>c. \<not> isWhiteSpace c) s"
    by (simp add: cleaned_def replace_first_absent)
  have comma: "0x2C \<notin> set a \<longrightarrow>
        cleaned (a @ [0x2C] @ b)
          = filter (\<lambda>c. \<not> isWhiteSpace c) a @ [0x2E] @ filter (\<lambda>c. \<not> isWhiteSpace c) b"
    by (simp add: cleaned_def replace_first_append isWhiteSpace_def)
  have ex1: "parseFloat rt (str ''1234.56'') = Finite (123456 / 100) \<longrightarrow>
        parseCzechNumber rt (Some (Str (str ''1 234,56''))) = Finite (123456 / 100)"
    using gen [of "str ''1 234,56''"] ne by (simp add: c1)
  have ex2: "parseFloat rt (str ''abc'') = NaN \<longrightarrow>
        parseCzechNumber rt (Some (Str (str ''abc''))) = Finite 0"
    using gen [of "str ''abc''"] ne by (simp add: c2)
  have miss: "parseCzechNumber rt None = Finite 0" "parseCzechNumber rt (Some (Str [])) = Finite 0"
    "parseCzechNumber rt (Some (Arr xs)) = Finite 0"
    by (simp_all add: parseCzechNumber_def)
  show ?thesis
    using miss nan gen cleaned_no_space nocomma comma c1 ex1 ex2 by blast
qed

theorem parseCzechNumber_cleans_and_defaults_witness:
  "parseFloat demo_runtime (str ''1234.56'') = Finite (123456 / 100)
   \<and> parseCzechNumber demo_runtime (Some (Str (str ''1 234,56''))) = Finite (123456 / 100)
   \<and> parseFloat demo_runtime (str ''abc'') = NaN
   \<and> parseCzechNumber demo_runtime (Some (Str (str ''abc''))) = Finite 0
   \<and> 0x2C \<notin> set (str ''1 234'')
   \<and> cleaned (str ''1 234'' @ [0x2C] @ str ''56'') = str ''1234'' @ [0x2E] @ str ''56''"
proof -
  have f1: "parseFloat demo_runtime (str ''1234.56'') = Finite (123456 / 100)"
    by (simp add: demo_runtime_def demo_parseFloat_def str_def)
  have f2: "parseFloat demo_runtime (str ''abc'') = NaN"
    by (simp add: demo_runtime_def demo_parseFloat_def str_def)
  have nc: "0x2C \<notin> set (str ''1 234'')"
    by (simp add: str_def)
  note t = parseCzechNumber_cleans_and_defaults
    [of demo_runtime "[]" "Some (Str [])" "str ''1 234''" "str ''1 234''" "str ''56''"]
  have "cleaned (str ''1 234'' @ [0x2C] @ str ''56'') = str ''1234'' @ [0x2E] @ str ''56''"
    using t nc by (simp add: str_def isWhiteSpace_def)
  then show ?thesis
    using t f1 f2 nc by simp
qed

section \<open>The date parser\<close>

text \<open>
  Claim C7. \<open>parseDate\<close> returns \<open>null\<close> for a missing or empty string; otherwise
  it tries, on the trimmed string, the layouts \<open>dd.MM.yyyy\<close>, \<open>d.M.yyyy\<close>,
  \<open>yyyy-MM-dd\<close>, \<open>dd/MM/yyyy\<close> in this order and then the free-form parse, and
  returns the first valid date: \<open>null\<close> when every attempt fails, and the date of
  an attempt when all attempts before it failed. It has no other outcome. (An
  array, which a row may hold in place of a string, is not empty input: its
  elements joined by commas go through the same attempts.)
\<close>

theorem parseDate_first_valid:
  "parseDate rt clk None = None
   \<and> parseDate rt clk (Some (Str [])) = None
   \<and> date_layouts = [str ''dd.MM.yyyy'', str ''d.M.yyyy'', str ''yyyy-MM-dd'', str ''dd/MM/yyyy'']
   \<and> (s \<noteq> [] \<longrightarrow> parseDate rt clk (Some (Str s)) = first_valid (attempts rt clk (trim s)))
   \<and> (s \<noteq> [] \<and> list_all (\<lambda>r. r = None) (attempts rt clk (trim s))
        \<longrightarrow> parseDate rt clk (Some (Str s)) = None)
   \<and> (s \<noteq> [] \<and> attempts rt clk (trim s) = failed @ Some d # later
          \<and> list_all (\<lambda>r. r = None) failed
        \<longrightarrow> parseDate rt clk (Some (Str s)) = Some d)
   \<and> parseDate rt clk (Some (Arr xs)) = first_valid (attempts rt clk (trim (join [0x2C] xs)))"
proof -
  have layouts: "enumerate 0 date_layouts
      = [(0, str ''dd.MM.yyyy''), (1, str ''d.M.yyyy''), (2, str ''yyyy-MM-dd''),
         (3, str ''dd/MM/yyyy'')]"
    by (simp add: date_layouts_def enumerate_eq_zip upt_rec)
  have main: "parseDate rt clk (Some (Str s)) = first_valid (attempts rt clk (trim s))"
    if "s \<noteq> []" for s
    using that unfolding parseDate_def attempts_def first_valid_def layouts Let_def
    by (simp add: String_of_def split: option.splits)
  have array: "parseDate rt clk (Some (Arr xs)) = first_valid (attempts rt clk (trim (join [0x2C] xs)))"
    unfolding parseDate_def attempts_def first_valid_def layouts Let_def
    by (simp add: String_of_def split: option.splits)
  have none: "first_valid rs = None" if "list_all (\<lambda>r. r = None) rs" for rs
    using that by (induction rs) (auto simp: first_valid_def)
  have first: "first_valid (failed @ Some d # later) = Some d"
    if "list_all (\<lambda>r. r = None) failed" for failed later
    using that by (induction failed) (auto simp: first_valid_def)
  show ?thesis
    using main none first array
    by (auto simp: parseDate_def date_layouts_def)
qed

theorem parseDate_first_valid_witness:
  "str ''01.02.2024 '' \<noteq> []
   \<and> attempts demo_runtime (demo_clock 0) (trim (str ''01.02.2024 ''))
       = [] @ Some 1706745600000 # [None, None, None, None]
   \<and> parseDate demo_runtime (demo_clock 0) (Some (Str (str ''01.02.2024 ''))) = Some 1706745600000
   \<and> list_all (\<lambda>r. r = None) (attempts demo_runtime (demo_clock 0) (trim (str ''soon'')))
   \<and> parseDate demo_runtime (demo_clock 0) (Some (Str (str ''soon''))) = None"
proof -
  have a: "attempts demo_runtime (demo_clock 0) (trim (str ''01.02.2024 ''))
       = [] @ Some 1706745600000 # [None, None, None, None]"
    by (simp add: attempts_def date_layouts_def enumerate_eq_zip upt_rec demo_runtime_def
        demo_parse_def str_def trim_def isWhiteSpace_def)
  have b: "list_all (\<lambda>r. r = None) (attempts demo_runtime (demo_clock 0) (trim (str ''soon'')))"
    by (simp add: attempts_def date_layouts_def enumerate_eq_zip upt_rec demo_runtime_def
        demo_parse_def str_def trim_def isWhiteSpace_def)
  have ne: "str ''01.02.2024 '' \<noteq> []" "str ''soon'' \<noteq> []"
    by (simp_all add: str_def)
  have e: "list_all (\<lambda>r. r = None) ([] :: int option list)"
    by simp
  have "parseDate demo_runtime (demo_clock 0) (Some (Str (str ''01.02.2024 ''))) = Some 1706745600000"
    using parseDate_first_valid [of demo_runtime "demo_clock 0" "str ''01.02.2024 ''" "[]"
        1706745600000 "[None, None, None, None]"] a ne(1) e
    by blast
  moreover have "parseDate demo_runtime (demo_clock 0) (Some (Str (str ''soon''))) = None"
    using parseDate_first_valid [of demo_runtime "demo_clock 0" "str ''soon''"] b ne(2)
    by blast
  ultimately show ?thesis
    using a b ne by simp
qed

section \<open>Category inference\<close>

lemma first_category_none:
  "list_all (\<lambda>r. \<not> rule_matches d r) rs \<Longrightarrow> first_category d rs = Ostatni"
  by (induction rs) auto

lemma first_category_first:
  "list_all (\<lambda>r. \<not> rule_matches d r) before \<Longrightarrow> rule_matches d r
     \<Longrightarrow> first_category d (before @ r # after) = rule.category r"
  by (induction before) auto

lemma rules_fuel:
  "\<exists>after. rules = [rules ! 0, rules ! 1] @ (rules ! 2) # after"
  by (simp add: rules_def)

lemma fuel_category: "rule.category (rules ! 2) = Tankovani"
  by (simp add: rules_def Tankovani_def)

text \<open>
  Claim C8, as amended. \<open>guessCategory\<close> lower-cases the description and returns
  the category of the first rule, in the fixed order of \<open>rules\<close>, one of whose
  keywords occurs in it, and the fallback \<open>Ostatni\<close> when no rule matches. In
  particular a description that contains a keyword of the fuel rule and no
  keyword of the two rules before it (groceries, restaurants) is inferred into
  the fuel category.
\<close>

theorem guessCategory_first_match:
  "(list_all (\<lambda>r. \<not> rule_matches (toLowerCase rt d) r) rules \<longrightarrow> guessCategory rt d = Ostatni)
   \<and> (rules = before @ r # after
        \<and> list_all (\<lambda>r'. \<not> rule_matches (toLowerCase rt d) r') before
        \<and> rule_matches (toLowerCase rt d) r
      \<longrightarrow> guessCategory rt d = rule.category r)
   \<and> (kw \<in> set (keywords' (rules ! 2)) \<and> includes' (toLowerCase rt d) kw
        \<and> \<not> rule_matches (toLowerCase rt d) (rules ! 0)
        \<and> \<not> rule_matches (toLowerCase rt d) (rules ! 1)
      \<longrightarrow> guessCategory rt d = Tankovani)"
proof (intro conjI impI)
  assume "list_all (\<lambda>r. \<not> rule_matches (toLowerCase rt d) r) rules"
  then show "guessCategory rt d = Ostatni"
    by (simp add: guessCategory_def first_category_none)
next
  assume h: "rules = before @ r # after
        \<and> list_all (\<lambda>r'. \<not> rule_matches (toLowerCase rt d) r') before
        \<and> rule_matches (toLowerCase rt d) r"
  then have split: "rules = before @ r # after"
    by blast
  have "first_category (toLowerCase rt d) (before @ r # after) = rule.category r"
    using h by (intro first_category_first) simp_all
  then show "guessCategory rt d = rule.category r"
    unfolding guessCategory_def by (subst split)
next
  assume h: "kw \<in> set (keywords' (rules ! 2)) \<and> includes' (toLowerCase rt d) kw
        \<and> \<not> rule_matches (toLowerCase rt d) (rules ! 0)
        \<and> \<not> rule_matches (toLowerCase rt d) (rules ! 1)"
  then have m: "rule_matches (toLowerCase rt d) (rules ! 2)"
    unfolding rule_matches_def list_ex_iff by blast
  obtain after where r: "rules = [rules ! 0, rules ! 1] @ (rules ! 2) # after"
    using rules_fuel by blast
  have "first_category (toLowerCase rt d) ([rules ! 0, rules ! 1] @ (rules ! 2) # after)
      = rule.category (rules ! 2)"
    using h m by (intro first_category_first) simp_all
  then show "guessCategory rt d = Tankovani"
    unfolding guessCategory_def fuel_category [symmetric] by (subst r)
qed

theorem guessCategory_first_match_witness:
  "str ''shell'' \<in> set (keywords' (rules ! 2))
   \<and> includes' (toLowerCase demo_runtime (str ''Shell station'')) (str ''shell'')
   \<and> \<not> rule_matches (toLowerCase demo_runtime (str ''Shell station'')) (rules ! 0)
   \<and> \<not> rule_matches (toLowerCase demo_runtime (str ''Shell station'')) (rules ! 1)
   \<and> guessCategory demo_runtime (str ''Shell station'') = Tankovani
   \<and> list_all (\<lambda>r. \<not> rule_matches (toLowerCase demo_runtime (str ''salary'')) r) rules
   \<and> guessCategory demo_runtime (str ''salary'') = Ostatni"
proof -
  have k: "str ''shell'' \<in> set (keywords' (rules ! 2))"
    by (simp add: rules_def)
  have i: "includes' (toLowerCase demo_runtime (str ''Shell station'')) (str ''shell'')"
    by (simp add: demo_runtime_def str_def ascii_lower_def)
  have n0: "\<not> rule_matches (toLowerCase demo_runtime (str ''Shell station'')) (rules ! 0)"
    by (simp add: demo_runtime_def rules_def rule_matches_def str_def ascii_lower_def)
  have n1: "\<not> rule_matches (toLowerCase demo_runtime (str ''Shell station'')) (rules ! 1)"
    by (simp add: demo_runtime_def rules_def rule_matches_def str_def ascii_lower_def)
  have none: "list_all (\<lambda>r. \<not> rule_matches (toLowerCase demo_runtime (str ''salary'')) r) rules"
    by (simp add: demo_runtime_def rules_def rule_matches_def str_def ascii_lower_def)
  have "guessCategory demo_runtime (str ''Shell station'') = Tankovani"
    using guessCategory_first_match [of demo_runtime "str ''Shell station''" "[]" "rules ! 0"
        "tl rules" "str ''shell''"] k i n0 n1
    by blast
  moreover have "guessCategory demo_runtime (str ''salary'') = Ostatni"
    using guessCategory_first_match [of demo_runtime "str ''salary''"] none
    by blast
  ultimately show ?thesis
    using k i n0 n1 none by simp
qed

text \<open>
  Claim C8 as stated does not hold for every description with a fuel keyword:
  \<open>shell albert\<close> contains the fuel keyword \<open>shell\<close>, and the groceries rule,
  which comes first, takes it for its keyword \<open>albert\<close>.
\<close>

theorem guessCategory_fuel_counterexample:
  "str ''shell'' \<in> set (keywords' (rules ! 2))
   \<and> rule.category (rules ! 2) = Tankovani
   \<and> includes' (toLowerCase demo_runtime (str ''shell albert'')) (str ''shell'')
   \<and> guessCategory demo_runtime (str ''shell albert'') = str ''Potraviny''
   \<and> guessCategory demo_runtime (str ''shell albert'') \<noteq> Tankovani"
  by (simp add: guessCategory_def demo_runtime_def rules_def rule_matches_def Tankovani_def
      str_def ascii_lower_def)

section \<open>Privacy masking\<close>

text \<open>
  Claim C9. \<open>maskTransaction\<close> leaves the id, the date, the amount, the
  category, the currency, the variable symbol, the operation type and the
  \<open>internal\<close> flag of a transaction as they are: the result is the transaction
  with at most its counterparty, description and note replaced.
\<close>

theorem maskTransaction_frame:
  "id' (maskTransaction t) = id' t
   \<and> Transaction.date (maskTransaction t) = Transaction.date t
   \<and> Transaction.amount (maskTransaction t) = Transaction.amount t
   \<and> Transaction.category (maskTransaction t) = Transaction.category t
   \<and> Transaction.currency (maskTransaction t) = Transaction.currency t
   \<and> Transaction.variableSymbol (maskTransaction t) = Transaction.variableSymbol t
   \<and> Transaction.operationType (maskTransaction t) = Transaction.operationType t
   \<and> Transaction.internal (maskTransaction t) = Transaction.internal t
   \<and> maskTransaction t =
       t\<lparr>counterparty := Transaction.counterparty (maskTransaction t),
         description := Transaction.description (maskTransaction t),
         note' := Transaction.note' (maskTransaction t)\<rparr>"
  by (simp add: maskTransaction_def maskAmount_def)

section \<open>Restoring saved data\<close>

lemma length_map_completion:
  "map_completion f xs = Normal ys \<Longrightarrow> length ys = length xs"
  by (induction xs arbitrary: ys) (auto split: completion.splits)

lemma opt_prop_Some: "opt_prop (Some v) k = property v k"
  by (cases v) simp_all

lemma truthy_length_JArr:
  "truthy (opt_prop (Some (JArr ts)) (str ''length'')) \<longleftrightarrow> ts \<noteq> []"
  by simp

lemma loadFromStorage_Some:
  assumes "loadFromStorage getItem JSON_parse new_Date = Some r"
  shows "\<exists>raw parsed ts txs. getItem = Normal (Some raw) \<and> JSON_parse raw = Normal parsed
           \<and> property parsed (str ''transactions'') = Some (JArr ts)
           \<and> truthy (opt_prop (Some (JArr ts)) (str ''length''))
           \<and> map_completion (restore new_Date) ts = Normal txs
           \<and> AppData.transactions (LoadFromStorageResult.data r) = txs"
  using assms unfolding loadFromStorage_def
  by (auto simp: opt_prop_Some split: completion.splits option.splits if_splits json.splits)

text \<open>
  Claim C10. \<open>loadFromStorage\<close> never returns a result with an empty transaction
  list. It returns \<open>null\<close> when the stored item is missing (or reading it
  raises, or it is the empty string), when \<open>JSON.parse\<close> raises, when the payload
  has no transactions (none, \<open>null\<close> or an empty array), and when it has no
  \<open>dateRange\<close>.
\<close>

theorem loadFromStorage_never_empty:
  "(loadFromStorage getItem JSON_parse new_Date = Some r \<longrightarrow>
      AppData.transactions (LoadFromStorageResult.data r) \<noteq> [])
   \<and> loadFromStorage Throw JSON_parse new_Date = None
   \<and> loadFromStorage (Normal None) JSON_parse new_Date = None
   \<and> loadFromStorage (Normal (Some [])) JSON_parse new_Date = None
   \<and> (JSON_parse raw = Throw \<longrightarrow> loadFromStorage (Normal (Some raw)) JSON_parse new_Date = None)
   \<and> (JSON_parse raw = Normal parsed
        \<and> (opt_prop (Some parsed) (str ''transactions'') = None
           \<or> opt_prop (Some parsed) (str ''transactions'') = Some JNull
           \<or> opt_prop (Some parsed) (str ''transactions'') = Some (JArr []))
      \<longrightarrow> loadFromStorage (Normal (Some raw)) JSON_parse new_Date = None)
   \<and> (JSON_parse raw = Normal parsed
        \<and> (opt_prop (Some parsed) (str ''dateRange'') = None
           \<or> opt_prop (Some parsed) (str ''dateRange'') = Some JNull)
      \<longrightarrow> loadFromStorage (Normal (Some raw)) JSON_parse new_Date = None)"
proof (intro conjI impI)
  assume "loadFromStorage getItem JSON_parse new_Date = Some r"
  then obtain ts txs where "truthy (opt_prop (Some (JArr ts)) (str ''length''))"
    and "map_completion (restore new_Date) ts = Normal txs"
    and "AppData.transactions (LoadFromStorageResult.data r) = txs"
    using loadFromStorage_Some by blast
  then show "AppData.transactions (LoadFromStorageResult.data r) \<noteq> []"
    using length_map_completion truthy_length_JArr by fastforce
next
  assume "JSON_parse raw = Normal parsed
        \<and> (opt_prop (Some parsed) (str ''transactions'') = None
           \<or> opt_prop (Some parsed) (str ''transactions'') = Some JNull
           \<or> opt_prop (Some parsed) (str ''transactions'') = Some (JArr []))"
  then show "loadFromStorage (Normal (Some raw)) JSON_parse new_Date = None"
    unfolding loadFromStorage_def by (auto simp: str_def)
next
  assume "JSON_parse raw = Normal parsed
        \<and> (opt_prop (Some parsed) (str ''dateRange'') = None
           \<or> opt_prop (Some parsed) (str ''dateRange'') = Some JNull)"
  then show "loadFromStorage (Normal (Some raw)) JSON_parse new_Date = None"
    unfolding loadFromStorage_def by auto
qed (simp_all add: loadFromStorage_def)

lemma stored_load:
  "loadFromStorage (Normal (Some stored_text)) demo_JSON_parse demo_new_Date = Some stored_result"
  by (simp add: loadFromStorage_def demo_JSON_parse_def demo_new_Date_def stored_payload_def
      stored_result_def stored_text_def restore_range_def restore_def str_def)

theorem loadFromStorage_never_empty_witness:
  "loadFromStorage (Normal (Some stored_text)) demo_JSON_parse demo_new_Date = Some stored_result
   \<and> AppData.transactions (LoadFromStorageResult.data stored_result) \<noteq> []
   \<and> demo_JSON_parse (str ''{'') = Throw
   \<and> loadFromStorage (Normal (Some (str ''{''))) demo_JSON_parse demo_new_Date = None"
proof -
  have bad: "demo_JSON_parse (str ''{'') = Throw"
    by (simp add: demo_JSON_parse_def stored_text_def str_def)
  note t = loadFromStorage_never_empty
    [of "Normal (Some stored_text)" demo_JSON_parse demo_new_Date stored_result "str ''{''"]
  have "AppData.transactions (LoadFromStorageResult.data stored_result) \<noteq> []"
    using t stored_load by blast
  moreover have "loadFromStorage (Normal (Some (str ''{''))) demo_JSON_parse demo_new_Date = None"
    using t bad by blast
  ultimately show ?thesis
    using stored_load bad by simp
qed

end
